theory Spec2Isabelle
  imports Complex_Main
begin

section \<open>Coevolution island: data model\<close>

text \<open>
  Embedding of \<^verbatim>\<open>bingo/CoevolutionIsland.py\<close>. A Python float is the not-a-number
  sentinel, one of the two infinities, or a real number; only rounding and overflow are
  left out. Arithmetic and comparisons follow IEEE 754: the sentinel propagates and fails
  every comparison, and the difference of two equal infinities is the sentinel. Python
  integers are \<open>int\<close>. Exceptions are values of \<open>error\<close>; \<open>EngineError\<close> stands for
  whatever a collaborator may raise. Object identity is not represented: a clone is an
  equal value. The island is the one built with the default \<^verbatim>\<open>verbose=False\<close>: the
  \<^verbatim>\<open>verbose\<close> branches, which only read the engines to format log lines, are left out.
\<close>

datatype error = IndexError | ZeroDivisionError | EngineError

datatype fl = NaN | PInf | NInf | Num real

fun isnan :: "fl \<Rightarrow> bool" where
  "isnan NaN = True"
| "isnan _ = False"

fun is_finite :: "fl \<Rightarrow> bool" where
  "is_finite (Num _) = True"
| "is_finite _ = False"

fun fl_add :: "fl \<Rightarrow> fl \<Rightarrow> fl" where
  "fl_add NaN _ = NaN"
| "fl_add _ NaN = NaN"
| "fl_add PInf NInf = NaN"
| "fl_add NInf PInf = NaN"
| "fl_add PInf _ = PInf"
| "fl_add _ PInf = PInf"
| "fl_add NInf _ = NInf"
| "fl_add _ NInf = NInf"
| "fl_add (Num a) (Num b) = Num (a + b)"

fun fl_sub :: "fl \<Rightarrow> fl \<Rightarrow> fl" where
  "fl_sub NaN _ = NaN"
| "fl_sub _ NaN = NaN"
| "fl_sub PInf PInf = NaN"
| "fl_sub NInf NInf = NaN"
| "fl_sub PInf _ = PInf"
| "fl_sub _ PInf = NInf"
| "fl_sub NInf _ = NInf"
| "fl_sub _ NInf = PInf"
| "fl_sub (Num a) (Num b) = Num (a - b)"

fun fl_abs :: "fl \<Rightarrow> fl" where
  "fl_abs (Num a) = Num \<bar>a\<bar>"
| "fl_abs NaN = NaN"
| "fl_abs PInf = PInf"
| "fl_abs NInf = PInf"

text \<open>The real value of a finite float (0 on the others, where it is never read).\<close>

fun num_of :: "fl \<Rightarrow> real" where
  "num_of (Num a) = a"
| "num_of _ = 0"

text \<open>\<^verbatim>\<open>a > b\<close> and \<^verbatim>\<open>a >= b\<close> on floats: false as soon as one side is not-a-number.\<close>

fun fl_gt :: "fl \<Rightarrow> fl \<Rightarrow> bool" where
  "fl_gt NaN _ = False"
| "fl_gt _ NaN = False"
| "fl_gt _ PInf = False"
| "fl_gt PInf _ = True"
| "fl_gt NInf _ = False"
| "fl_gt _ NInf = True"
| "fl_gt (Num a) (Num b) = (a > b)"

fun fl_ge :: "fl \<Rightarrow> fl \<Rightarrow> bool" where
  "fl_ge NaN _ = False"
| "fl_ge _ NaN = False"
| "fl_ge PInf _ = True"
| "fl_ge _ NInf = True"
| "fl_ge _ PInf = False"
| "fl_ge NInf _ = False"
| "fl_ge (Num a) (Num b) = (a \<ge> b)"

text \<open>\<^verbatim>\<open>err / n\<close> with a Python float and an integer count: division by zero raises.\<close>

definition fl_div :: "fl \<Rightarrow> nat \<Rightarrow> error + fl" where
  "fl_div x n =
     (if n = 0 then Inl ZeroDivisionError
      else Inr (case x of NaN \<Rightarrow> NaN | PInf \<Rightarrow> PInf | NInf \<Rightarrow> NInf
                | Num a \<Rightarrow> Num (a / real n)))"

text \<open>
  \<^verbatim>\<open>np.var\<close> (population variance, the mean of the squared deviations from the mean).
  On an empty list it returns the sentinel, and so it does on a list holding the sentinel
  or an infinity (the mean is then infinite or undefined, and the deviation of an infinite
  entry from it is undefined); it does not raise on floats, so the \<open>Inl\<close> branch is never
  taken here.
\<close>

definition np_var :: "fl list \<Rightarrow> error + fl" where
  "np_var xs =
     (if xs = [] \<or> (\<exists>x \<in> set xs. \<not> is_finite x) then Inr NaN
      else
        let vs = map num_of xs;
            n = real (length vs);
            m = sum_list vs / n
        in Inr (Num (sum_list (map (\<lambda>v. (v - m)\<^sup>2) vs) / n)))"

text \<open>
  An individual: its genome and the "fitness is current" flag \<^verbatim>\<open>fit_set\<close> (the cached
  fitness value itself is read by the engines only).
  A population engine (\<^verbatim>\<open>Island\<close>): its members, generation age and cumulative
  evaluation counter; \<open>hidden\<close> stands for the engine state the orchestrator never reads
  (pareto front, random generator).
  The orchestrator: the two engines, the two parallel trainer lists, the Best-Predictor
  Cache, the configuration, and \<open>use_true\<close>, which says that the fitness function injected
  into the solution engine is \<^verbatim>\<open>true_fitness_plus_complexity\<close>.
\<close>

record 'g indv =
  genome :: 'g
  fit_set :: bool

record 'g island =
  pop :: "'g indv list"
  age :: int
  fitness_evals :: int
  hidden :: nat

record ('s, 'p) coev =
  solution_island :: "'s island"
  predictor_island :: "'p island"
  trainers :: "'s indv list"
  trainers_true_fitness :: "fl list"
  best_predictor :: "'p indv"
  predictor_ratio :: real
  predictor_to_solution_eval_cost :: int
  predictor_update_freq :: int
  trainer_update_freq :: int
  use_true :: bool

text \<open>
  The collaborators, which are not part of the orchestrator and are taken as parameters:
  \<^item> \<open>fit_func p s\<close> is \<^verbatim>\<open>pred.fit_func(sol, fitness_metric, training_data)\<close>;
  \<^item> \<open>evaluate_fitness s\<close> is \<^verbatim>\<open>fitness_metric.evaluate_fitness(sol, training_data)\<close>;
  \<^item> \<open>complexity s\<close> is \<^verbatim>\<open>sol.complexity()\<close>;
  \<^item> \<open>sol_step\<close>, \<open>pred_step\<close> are \<^verbatim>\<open>Island.generational_step\<close> of the two engines,
    \<open>sol_pareto\<close> is \<^verbatim>\<open>Island.update_pareto_front\<close> and \<open>pred_best\<close> is
    \<^verbatim>\<open>Island.best_indv\<close>, each given the fitness function injected into the engine;
  \<^item> \<open>sol_dump\<close>, \<open>sol_load\<close>, \<open>pred_dump\<close>, \<open>pred_load\<close> are \<^verbatim>\<open>dump\<close> and \<^verbatim>\<open>load\<close>
    of the two gene manipulators.
\<close>

record ('s, 'p, 'ds, 'dp) collab =
  fit_func :: "'p \<Rightarrow> 's \<Rightarrow> fl"
  evaluate_fitness :: "'s \<Rightarrow> fl"
  complexity :: "'s \<Rightarrow> int"
  sol_step :: "('s indv \<Rightarrow> fl \<times> int) \<Rightarrow> 's island \<Rightarrow> error + 's island"
  sol_pareto :: "('s indv \<Rightarrow> fl \<times> int) \<Rightarrow> 's island \<Rightarrow> error + 's island"
  pred_step :: "('p indv \<Rightarrow> error + fl) \<Rightarrow> 'p island \<Rightarrow> error + 'p island"
  pred_best :: "('p indv \<Rightarrow> error + fl) \<Rightarrow> 'p island \<Rightarrow> error + 'p indv"
  sol_dump :: "'s indv \<Rightarrow> 'ds"
  sol_load :: "'ds \<Rightarrow> 's indv"
  pred_dump :: "'p indv \<Rightarrow> 'dp"
  pred_load :: "'dp \<Rightarrow> 'p indv"

definition copy_indv :: "'g indv \<Rightarrow> 'g indv" where
  "copy_indv i = i"

section \<open>Fitness adapters\<close>

definition solution_fitness_true ::
  "('s, 'p, 'ds, 'dp) collab \<Rightarrow> 's indv \<Rightarrow> fl" where
  "solution_fitness_true C solution = evaluate_fitness C (genome solution)"

definition solution_fitness_est ::
  "('s, 'p, 'ds, 'dp) collab \<Rightarrow> ('s, 'p) coev \<Rightarrow> 's indv \<Rightarrow> fl \<times> int" where
  "solution_fitness_est C st solution =
     (fit_func C (genome (best_predictor st)) (genome solution),
      complexity C (genome solution))"

definition true_fitness_plus_complexity ::
  "('s, 'p, 'ds, 'dp) collab \<Rightarrow> 's indv \<Rightarrow> fl \<times> int" where
  "true_fitness_plus_complexity C solution =
     (solution_fitness_true C solution, complexity C (genome solution))"

definition abs_err :: "('s, 'p, 'ds, 'dp) collab \<Rightarrow> 'p indv \<Rightarrow> 's indv \<times> fl \<Rightarrow> fl" where
  "abs_err C predictor tr =
     (case tr of (train, true_fit) \<Rightarrow>
        fl_abs (fl_sub true_fit (fit_func C (genome predictor) (genome train))))"

text \<open>
  \<^verbatim>\<open>predictor_fitness\<close> reads only the two trainer lists of the orchestrator, so its body
  is stated on them; the constructor hands it to the predictor engine before the
  Best-Predictor Cache exists.
\<close>

definition predictor_fitness_on ::
  "('s, 'p, 'ds, 'dp) collab \<Rightarrow> 's indv list \<Rightarrow> fl list \<Rightarrow> 'p indv \<Rightarrow> error + fl" where
  "predictor_fitness_on C ts fs predictor =
     (let err = fold (\<lambda>tr err. fl_add err (abs_err C predictor tr)) (zip ts fs) (Num 0)
      in fl_div err (length ts))"

definition predictor_fitness ::
  "('s, 'p, 'ds, 'dp) collab \<Rightarrow> ('s, 'p) coev \<Rightarrow> 'p indv \<Rightarrow> error + fl" where
  "predictor_fitness C st predictor =
     predictor_fitness_on C (trainers st) (trainers_true_fitness st) predictor"

section \<open>Trainer replacement\<close>

text \<open>
  The variance of the predictors' estimates for one candidate, with the \<^verbatim>\<open>try\<close>/\<^verbatim>\<open>except\<close>
  around \<^verbatim>\<open>np.var\<close>: a numeric failure yields the sentinel.
\<close>

definition candidate_variance ::
  "('s, 'p, 'ds, 'dp) collab \<Rightarrow> 'p indv list \<Rightarrow> 's indv \<Rightarrow> fl" where
  "candidate_variance C preds sol =
     (let pfit_list = map (\<lambda>pred. fit_func C (genome pred) (genome sol)) preds
      in case np_var pfit_list of Inl _ \<Rightarrow> NaN | Inr v \<Rightarrow> v)"

definition scan_step ::
  "('s, 'p, 'ds, 'dp) collab \<Rightarrow> 'p indv list \<Rightarrow> 's indv \<Rightarrow> 's indv \<times> fl \<Rightarrow> 's indv \<times> fl" where
  "scan_step C preds sol acc =
     (case acc of (s_best, max_variance) \<Rightarrow>
        let variance = candidate_variance C preds sol
        in if fl_gt variance max_variance then (copy_indv sol, variance)
           else (s_best, max_variance))"

definition trainer_location :: "('s, 'p) coev \<Rightarrow> error + int" where
  "trainer_location st =
     (if trainer_update_freq st = 0 then Inl ZeroDivisionError
      else if trainers st = [] then Inl ZeroDivisionError
      else Inr ((age (solution_island st) div trainer_update_freq st)
                  mod int (length (trainers st))))"

definition add_new_trainer ::
  "('s, 'p, 'ds, 'dp) collab \<Rightarrow> ('s, 'p) coev \<Rightarrow> error + ('s, 'p) coev" where
  "add_new_trainer C st =
     (case pop (solution_island st) of
        [] \<Rightarrow> Inl IndexError
      | s0 # _ \<Rightarrow>
          let s_best = fst (fold (scan_step C (pop (predictor_island st)))
                              (pop (solution_island st)) (s0, Num 0))
          in case trainer_location st of
               Inl e \<Rightarrow> Inl e
             | Inr location \<Rightarrow> Inr (st\<lparr>trainers := list_update (trainers st) (nat location) s_best\<rparr>))"

section \<open>Generation scheduling\<close>

definition current_ratio :: "('s, 'p) coev \<Rightarrow> error + real" where
  "current_ratio st =
     (let pe = fitness_evals (predictor_island st);
          se = fitness_evals (solution_island st);
          cost = predictor_to_solution_eval_cost st
      in if cost = 0 then Inl ZeroDivisionError
         else let d = real_of_int pe + real_of_int se / real_of_int cost
              in if d = 0 then Inl ZeroDivisionError else Inr (real_of_int pe / d))"

definition clear_fit_set :: "'g island \<Rightarrow> 'g island" where
  "clear_fit_set isle = isle\<lparr>pop := map (\<lambda>indv. indv\<lparr>fit_set := False\<rparr>) (pop isle)\<rparr>"

definition trainer_update_due :: "('s, 'p) coev \<Rightarrow> error + bool" where
  "trainer_update_due st =
     (if trainer_update_freq st = 0 then Inl ZeroDivisionError
      else Inr ((age (predictor_island st) + 1) mod trainer_update_freq st = 0))"

definition predictor_update_due :: "('s, 'p) coev \<Rightarrow> error + bool" where
  "predictor_update_due st =
     (if predictor_update_freq st = 0 then Inl ZeroDivisionError
      else Inr ((age (solution_island st) + 1) mod predictor_update_freq st = 0))"

text \<open>The trainer update inside the loop: \<^verbatim>\<open>add_new_trainer\<close>, then every predictor's flag is cleared.\<close>

definition update_trainers ::
  "('s, 'p, 'ds, 'dp) collab \<Rightarrow> ('s, 'p) coev \<Rightarrow> error + ('s, 'p) coev" where
  "update_trainers C st =
     (case add_new_trainer C st of
        Inl e \<Rightarrow> Inl e
      | Inr st1 \<Rightarrow> Inr (st1\<lparr>predictor_island := clear_fit_set (predictor_island st1)\<rparr>))"

text \<open>One pass through the body of the \<^verbatim>\<open>while\<close> loop, up to the recomputation of the ratio.\<close>

definition evolve_predictor_once ::
  "('s, 'p, 'ds, 'dp) collab \<Rightarrow> ('s, 'p) coev \<Rightarrow> error + ('s, 'p) coev" where
  "evolve_predictor_once C st =
     (case trainer_update_due st of
        Inl e \<Rightarrow> Inl e
      | Inr due \<Rightarrow>
          (case (if due then update_trainers C st else Inr st) of
             Inl e \<Rightarrow> Inl e
           | Inr st2 \<Rightarrow>
               (case pred_step C (predictor_fitness C st2) (predictor_island st2) of
                  Inl e \<Rightarrow> Inl e
                | Inr isle \<Rightarrow> Inr (st2\<lparr>predictor_island := isle\<rparr>))))"

text \<open>
  The \<^verbatim>\<open>while current_ratio < self.predictor_ratio\<close> loop. The ratio is computed before the
  loop and again at the end of each pass, that is, at every test of the loop condition.
  The loop need not end: \<open>None\<close> is "does not return".
\<close>

partial_function (option) evolve_predictors ::
  "('s, 'p, 'ds, 'dp) collab \<Rightarrow> ('s, 'p) coev \<Rightarrow> (error + ('s, 'p) coev) option" where
  "evolve_predictors C st =
     (case current_ratio st of
        Inl e \<Rightarrow> Some (Inl e)
      | Inr r \<Rightarrow>
          if r < predictor_ratio st then
            (case evolve_predictor_once C st of
               Inl e \<Rightarrow> Some (Inl e)
             | Inr st' \<Rightarrow> evolve_predictors C st')
          else Some (Inr st))"

text \<open>The refresh of the Best-Predictor Cache, with the clearing of every solution's flag.\<close>

definition update_best_predictor ::
  "('s, 'p, 'ds, 'dp) collab \<Rightarrow> ('s, 'p) coev \<Rightarrow> error + ('s, 'p) coev" where
  "update_best_predictor C st =
     (case pred_best C (predictor_fitness C st) (predictor_island st) of
        Inl e \<Rightarrow> Inl e
      | Inr b \<Rightarrow>
          Inr (st\<lparr>best_predictor := copy_indv b,
                  solution_island := clear_fit_set (solution_island st)\<rparr>))"

text \<open>The fitness function currently injected into the solution engine.\<close>

definition solution_fitness_function ::
  "('s, 'p, 'ds, 'dp) collab \<Rightarrow> ('s, 'p) coev \<Rightarrow> 's indv \<Rightarrow> fl \<times> int" where
  "solution_fitness_function C st =
     (if use_true st then true_fitness_plus_complexity C else solution_fitness_est C st)"

definition step_solutions ::
  "('s, 'p, 'ds, 'dp) collab \<Rightarrow> ('s, 'p) coev \<Rightarrow> error + ('s, 'p) coev" where
  "step_solutions C st =
     (case sol_step C (solution_fitness_function C st) (solution_island st) of
        Inl e \<Rightarrow> Inl e
      | Inr isle \<Rightarrow>
          (case sol_pareto C (solution_fitness_function C st) isle of
             Inl e \<Rightarrow> Inl e
           | Inr isle' \<Rightarrow> Inr (st\<lparr>solution_island := isle'\<rparr>)))"

text \<open>What follows the loop: the scheduled refresh, then one solution generation.\<close>

definition finish_step ::
  "('s, 'p, 'ds, 'dp) collab \<Rightarrow> ('s, 'p) coev \<Rightarrow> error + ('s, 'p) coev" where
  "finish_step C st1 =
     (case predictor_update_due st1 of
        Inl e \<Rightarrow> Inl e
      | Inr due \<Rightarrow>
          (case (if due then update_best_predictor C st1 else Inr st1) of
             Inl e \<Rightarrow> Inl e
           | Inr st2 \<Rightarrow> step_solutions C st2))"

definition generational_step ::
  "('s, 'p, 'ds, 'dp) collab \<Rightarrow> ('s, 'p) coev \<Rightarrow> (error + ('s, 'p) coev) option" where
  "generational_step C st =
     (case evolve_predictors C st of
        None \<Rightarrow> None
      | Some (Inl e) \<Rightarrow> Some (Inl e)
      | Some (Inr st1) \<Rightarrow> Some (finish_step C st1))"

definition use_true_fitness :: "('s, 'p) coev \<Rightarrow> ('s, 'p) coev" where
  "use_true_fitness st =
     st\<lparr>use_true := True, solution_island := clear_fit_set (solution_island st)\<rparr>"

section \<open>Snapshot and restore\<close>

text \<open>
  An index subset: \<^verbatim>\<open>None\<close> stands for all indices. Membership \<^verbatim>\<open>i in subset\<close> is by
  equality, so an entry that is no index of the list selects nothing.
\<close>

definition subset_or_all :: "int list option \<Rightarrow> nat \<Rightarrow> int list" where
  "subset_or_all idxs n = (case idxs of None \<Rightarrow> map int [0..<n] | Some s \<Rightarrow> s)"

definition selected :: "int list \<Rightarrow> 'a list \<Rightarrow> 'a list" where
  "selected sub xs = map snd (filter (\<lambda>(i, x). int i \<in> set sub) (enumerate 0 xs))"

definition rejected :: "int list \<Rightarrow> 'a list \<Rightarrow> 'a list" where
  "rejected sub xs = map snd (filter (\<lambda>(i, x). int i \<notin> set sub) (enumerate 0 xs))"

text \<open>
  Modelled from the spec: \<^verbatim>\<open>Island.dump_population\<close>, of the module \<^verbatim>\<open>Island\<close> that the
  orchestrator imports. The dump is the list of serialized genomes restricted to the index
  subset (default: the whole population); with removal the dumped members are deleted from
  the population, by index membership.
\<close>

definition Island_dump_population ::
  "('g indv \<Rightarrow> 'd) \<Rightarrow> int list option \<Rightarrow> bool \<Rightarrow> 'g island \<Rightarrow> 'd list \<times> 'g island" where
  "Island_dump_population dump idxs with_removal isle =
     (let sub = subset_or_all idxs (length (pop isle))
      in (map dump (selected sub (pop isle)),
          if with_removal then isle\<lparr>pop := rejected sub (pop isle)\<rparr> else isle))"

text \<open>
  Modelled from the spec: \<^verbatim>\<open>Island.load_population\<close>, of the same module. The loaded
  genomes replace the population or, as the docstring of \<^verbatim>\<open>load_populations\<close> says for
  \<^verbatim>\<open>replace=False\<close>, are appended to the current population.
\<close>

definition Island_load_population ::
  "('d \<Rightarrow> 'g indv) \<Rightarrow> 'd list \<Rightarrow> bool \<Rightarrow> 'g island \<Rightarrow> 'g island" where
  "Island_load_population load pop_list replace isle =
     isle\<lparr>pop := (if replace then [] else pop isle) @ map load pop_list\<rparr>"

definition dump_populations ::
  "('s, 'p, 'ds, 'dp) collab \<Rightarrow> int list option \<Rightarrow> int list option \<Rightarrow> int list option \<Rightarrow> bool \<Rightarrow>
     ('s, 'p) coev \<Rightarrow> ('ds list \<times> 'dp list \<times> ('ds \<times> fl) list) \<times> ('s, 'p) coev" where
  "dump_populations C s_subset p_subset t_subset with_removal st =
     (case Island_dump_population (sol_dump C) s_subset with_removal (solution_island st) of
        (solution_list, sisl) \<Rightarrow>
     (case Island_dump_population (pred_dump C) p_subset with_removal (predictor_island st) of
        (predictor_list, pisl) \<Rightarrow>
       let sub = subset_or_all t_subset (length (trainers st));
           trainer_list = map (\<lambda>(indv, tfit). (sol_dump C indv, tfit))
                            (selected sub (zip (trainers st) (trainers_true_fitness st)));
           st1 = st\<lparr>solution_island := sisl, predictor_island := pisl\<rparr>
       in ((solution_list, predictor_list, trainer_list),
           if with_removal
           then st1\<lparr>trainers := rejected sub (trainers st),
                    trainers_true_fitness := rejected sub (trainers_true_fitness st)\<rparr>
           else st1)))"

definition load_populations ::
  "('s, 'p, 'ds, 'dp) collab \<Rightarrow> 'ds list \<times> 'dp list \<times> ('ds \<times> fl) list \<Rightarrow> bool \<Rightarrow>
     ('s, 'p) coev \<Rightarrow> error + ('s, 'p) coev" where
  "load_populations C pop_lists replace st =
     (case pop_lists of (slist, plist, tlist) \<Rightarrow>
        let st1 = st\<lparr>solution_island :=
                       Island_load_population (sol_load C) slist replace (solution_island st),
                     predictor_island :=
                       Island_load_population (pred_load C) plist replace (predictor_island st),
                     trainers :=
                       (if replace then [] else trainers st) @ map (\<lambda>(d, t_fit). sol_load C d) tlist,
                     trainers_true_fitness :=
                       (if replace then [] else trainers_true_fitness st) @ map snd tlist\<rparr>
        in case pred_best C (predictor_fitness C st1) (predictor_island st1) of
             Inl e \<Rightarrow> Inl e
           | Inr b \<Rightarrow> Inr (st1\<lparr>best_predictor := copy_indv b\<rparr>))"

section \<open>Construction\<close>

text \<open>
  The rejection sampling of one trainer. The draws of \<^verbatim>\<open>np.random.randint\<close> are given as
  a list; the loop consumes one per attempt, and \<open>None\<close> says that the draws given were all
  rejected (the loop would go on).
\<close>

fun find_legal_trainer ::
  "('s, 'p, 'ds, 'dp) collab \<Rightarrow> 's indv list \<Rightarrow> 'p indv list \<Rightarrow> nat list \<Rightarrow>
     (error + nat \<times> fl \<times> nat list) option" where
  "find_legal_trainer C spop ppop [] = None"
| "find_legal_trainer C spop ppop (ind # draws) =
     (if ind < length spop then
        let sol = spop ! ind;
            true_fitness = solution_fitness_true C sol;
            legal_trainer_found =
              (\<not> isnan true_fitness \<and>
               (\<forall>pred \<in> set ppop. \<not> isnan (fit_func C (genome pred) (genome sol))))
        in if legal_trainer_found then Some (Inr (ind, true_fitness, draws))
           else find_legal_trainer C spop ppop draws
      else Some (Inl IndexError))"

fun init_trainers ::
  "('s, 'p, 'ds, 'dp) collab \<Rightarrow> 's indv list \<Rightarrow> 'p indv list \<Rightarrow> nat \<Rightarrow> nat list \<Rightarrow>
     's indv list \<Rightarrow> fl list \<Rightarrow> (error + 's indv list \<times> fl list) option" where
  "init_trainers C spop ppop 0 draws ts fs = Some (Inr (ts, fs))"
| "init_trainers C spop ppop (Suc n) draws ts fs =
     (case find_legal_trainer C spop ppop draws of
        None \<Rightarrow> None
      | Some (Inl e) \<Rightarrow> Some (Inl e)
      | Some (Inr (ind, true_fitness, draws')) \<Rightarrow>
          init_trainers C spop ppop n draws'
            (ts @ [copy_indv (spop ! ind)]) (fs @ [true_fitness]))"

text \<open>
  The constructor, from the two freshly created engines. The clamping of the predictor
  manipulator's \<^verbatim>\<open>max_index\<close> concerns the manipulator only and is left out.
\<close>

definition construct ::
  "('s, 'p, 'ds, 'dp) collab \<Rightarrow> 's island \<Rightarrow> 'p island \<Rightarrow> real \<Rightarrow> int \<Rightarrow> int \<Rightarrow> int \<Rightarrow>
     nat list \<Rightarrow> (error + ('s, 'p) coev) option" where
  "construct C sisl pisl predictor_ratio' predictor_update_freq' trainer_pop_size
       trainer_update_freq' draws =
     (case init_trainers C (pop sisl) (pop pisl) (nat trainer_pop_size) draws [] [] of
        None \<Rightarrow> None
      | Some (Inl e) \<Rightarrow> Some (Inl e)
      | Some (Inr (ts, fs)) \<Rightarrow>
          (case pred_best C (predictor_fitness_on C ts fs) pisl of
             Inl e \<Rightarrow> Some (Inl e)
           | Inr b \<Rightarrow>
               Some (Inr \<lparr>solution_island = sisl, predictor_island = pisl,
                          trainers = ts, trainers_true_fitness = fs,
                          best_predictor = copy_indv b,
                          predictor_ratio = predictor_ratio',
                          predictor_to_solution_eval_cost = int (length ts),
                          predictor_update_freq = predictor_update_freq',
                          trainer_update_freq = trainer_update_freq',
                          use_true = False\<rparr>)))"

section \<open>Auxiliary notions for the statements\<close>

text \<open>The loop condition: the ratio is defined and strictly below the target.\<close>

definition ratio_below :: "('s, 'p) coev \<Rightarrow> bool" where
  "ratio_below st =
     (case current_ratio st of Inl e \<Rightarrow> False | Inr r \<Rightarrow> r < predictor_ratio st)"

text \<open>The exit of the loop: the ratio is defined and not below the target.\<close>

definition ratio_reached :: "('s, 'p) coev \<Rightarrow> bool" where
  "ratio_reached st =
     (case current_ratio st of Inl e \<Rightarrow> False | Inr r \<Rightarrow> \<not> r < predictor_ratio st)"

text \<open>
  \<open>loop_run C k st st1\<close>: \<open>k\<close> passes through the body of the scheduling loop lead from
  \<open>st\<close> to \<open>st1\<close> without error, the loop condition holding before each of them.
\<close>

fun loop_run ::
  "('s, 'p, 'ds, 'dp) collab \<Rightarrow> nat \<Rightarrow> ('s, 'p) coev \<Rightarrow> ('s, 'p) coev \<Rightarrow> bool" where
  "loop_run C 0 st st1 = (st1 = st)"
| "loop_run C (Suc k) st st1 =
     (ratio_below st \<and>
      (case evolve_predictor_once C st of
         Inl e \<Rightarrow> False
       | Inr st' \<Rightarrow> loop_run C k st' st1))"



section \<open>A concrete instance\<close>

text \<open>
  A small instance used to run the definitions: genomes are natural numbers, the exact
  fitness of a solution is its genome, predictor \<open>p\<close> estimates \<open>p * s\<close> and predictor
  \<open>0\<close> fails on every solution. The engine evaluates every member once per generation.
\<close>

definition ex_engine_step :: "'g island \<Rightarrow> error + 'g island" where
  "ex_engine_step isle =
     Inr (isle\<lparr>pop := map (\<lambda>i. i\<lparr>fit_set := True\<rparr>) (pop isle),
               age := age isle + 1,
               fitness_evals := fitness_evals isle + int (length (pop isle))\<rparr>)"

definition ex_best :: "'g island \<Rightarrow> error + 'g indv" where
  "ex_best isle = (case pop isle of [] \<Rightarrow> Inl IndexError | b # _ \<Rightarrow> Inr b)"

definition ex_collab :: "(nat, nat, nat, nat) collab" where
  "ex_collab =
     \<lparr>fit_func = (\<lambda>p s. if p = 0 then NaN else Num (real (p * s))),
      evaluate_fitness = (\<lambda>s. Num (real s)),
      complexity = (\<lambda>s. int s),
      sol_step = (\<lambda>f. ex_engine_step),
      sol_pareto = (\<lambda>f isle. Inr isle),
      pred_step = (\<lambda>f. ex_engine_step),
      pred_best = (\<lambda>f. ex_best),
      sol_dump = genome,
      sol_load = (\<lambda>g. \<lparr>genome = g, fit_set = False\<rparr>),
      pred_dump = genome,
      pred_load = (\<lambda>g. \<lparr>genome = g, fit_set = False\<rparr>)\<rparr>"

definition ex_indv :: "nat \<Rightarrow> nat indv" where
  "ex_indv g = \<lparr>genome = g, fit_set = True\<rparr>"

text \<open>
  A state with four trainers and update frequencies 50, given the two ages, the solution
  engine's evaluation counter and the predictor genomes.
\<close>

definition ex_state :: "int \<Rightarrow> int \<Rightarrow> int \<Rightarrow> nat list \<Rightarrow> (nat, nat) coev" where
  "ex_state sage page se preds =
     \<lparr>solution_island =
        \<lparr>pop = [ex_indv 3, ex_indv 5], age = sage, fitness_evals = se, hidden = 0\<rparr>,
      predictor_island =
        \<lparr>pop = map ex_indv preds, age = page, fitness_evals = 1, hidden = 0\<rparr>,
      trainers = [ex_indv 3, ex_indv 3, ex_indv 5, ex_indv 5],
      trainers_true_fitness = [Num 3, Num 3, Num 5, Num 5],
      best_predictor = ex_indv 3,
      predictor_ratio = 1 / 10,
      predictor_to_solution_eval_cost = 4,
      predictor_update_freq = 50,
      trainer_update_freq = 50,
      use_true = False\<rparr>"

definition ex_pisl :: "int \<Rightarrow> int \<Rightarrow> nat island" where
  "ex_pisl a e = \<lparr>pop = [ex_indv 2, ex_indv 3], age = a, fitness_evals = e, hidden = 0\<rparr>"


section \<open>Properties\<close>

lemmas ex_defs = ex_collab_def ex_state_def ex_indv_def ex_engine_step_def ex_best_def

subsection \<open>Predictor fitness\<close>

lemma is_finite_Num: "is_finite x \<Longrightarrow> \<exists>v. x = Num v"
  by (cases x) auto

lemma isnan_NaN: "isnan x \<Longrightarrow> x = NaN"
  by (cases x) auto

lemma fold_abs_err_num:
  "\<forall>tr \<in> set zs. is_finite (abs_err C p tr) \<Longrightarrow>
   fold (\<lambda>tr err. fl_add err (abs_err C p tr)) zs (Num a) =
     Num (a + sum_list (map (\<lambda>tr. num_of (abs_err C p tr)) zs))"
proof (induction zs arbitrary: a)
  case Nil
  then show ?case by simp
next
  case (Cons z zs)
  from Cons.prems obtain v where v: "abs_err C p z = Num v"
    by (auto dest: is_finite_Num)
  from Cons.prems have "\<forall>tr \<in> set zs. is_finite (abs_err C p tr)" by simp
  from Cons.IH [OF this, of "a + v"] show ?case using v by (simp add: add.assoc)
qed

lemma fold_abs_err_from_nan:
  "fold (\<lambda>tr err. fl_add err (abs_err C p tr)) zs NaN = NaN"
  by (induction zs) auto

lemma fold_abs_err_nan:
  "\<exists>tr \<in> set zs. isnan (abs_err C p tr) \<Longrightarrow>
   fold (\<lambda>tr err. fl_add err (abs_err C p tr)) zs acc = NaN"
proof (induction zs arbitrary: acc)
  case Nil
  then show ?case by simp
next
  case (Cons z zs)
  show ?case
  proof (cases "isnan (abs_err C p z)")
    case True
    then have "abs_err C p z = NaN" by (rule isnan_NaN)
    then have "fl_add acc (abs_err C p z) = NaN" by (cases acc) auto
    then show ?thesis by (simp add: fold_abs_err_from_nan)
  next
    case False
    with Cons.prems have "\<exists>tr \<in> set zs. isnan (abs_err C p tr)" by auto
    from Cons.IH [OF this] show ?thesis by simp
  qed
qed

text \<open>
  An absolute difference is undefined exactly when one side is the sentinel or both sides
  are the same infinity.
\<close>

lemma abs_err_isnan:
  "isnan (abs_err C p (t, f)) =
     (isnan f \<or> isnan (fit_func C (genome p) (genome t)) \<or>
      f = PInf \<and> fit_func C (genome p) (genome t) = PInf \<or>
      f = NInf \<and> fit_func C (genome p) (genome t) = NInf)"
  by (cases f; cases "fit_func C (genome p) (genome t)") (auto simp: abs_err_def)

lemma abs_err_finite:
  "is_finite f \<Longrightarrow> is_finite (fit_func C (genome p) (genome t)) \<Longrightarrow>
   is_finite (abs_err C p (t, f))"
  by (cases f; cases "fit_func C (genome p) (genome t)") (auto simp: abs_err_def)

lemma abs_err_num:
  "is_finite f \<Longrightarrow> is_finite (fit_func C (genome p) (genome t)) \<Longrightarrow>
   num_of (abs_err C p (t, f)) = \<bar>num_of f - num_of (fit_func C (genome p) (genome t))\<bar>"
  by (cases f; cases "fit_func C (genome p) (genome t)") (auto simp: abs_err_def)

text \<open>Whatever the scores, the accumulated error is the sentinel or is not negative.\<close>

lemma abs_err_nonneg: "isnan (abs_err C p tr) \<or> fl_ge (abs_err C p tr) (Num 0)"
proof -
  obtain t f where tr: "tr = (t, f)" by (cases tr)
  show ?thesis unfolding tr
    by (cases f; cases "fit_func C (genome p) (genome t)") (auto simp: abs_err_def)
qed

lemma fl_add_nonneg:
  "isnan a \<or> fl_ge a (Num 0) \<Longrightarrow> isnan b \<or> fl_ge b (Num 0) \<Longrightarrow>
   isnan (fl_add a b) \<or> fl_ge (fl_add a b) (Num 0)"
  by (cases a; cases b) auto

lemma fold_abs_err_nonneg:
  "isnan acc \<or> fl_ge acc (Num 0) \<Longrightarrow>
   isnan (fold (\<lambda>tr err. fl_add err (abs_err C p tr)) zs acc) \<or>
   fl_ge (fold (\<lambda>tr err. fl_add err (abs_err C p tr)) zs acc) (Num 0)"
proof (induction zs arbitrary: acc)
  case Nil
  then show ?case by simp
next
  case (Cons z zs)
  from fl_add_nonneg [OF Cons.prems abs_err_nonneg [of C p z]]
  have "isnan (fl_add acc (abs_err C p z)) \<or> fl_ge (fl_add acc (abs_err C p z)) (Num 0)" .
  from Cons.IH [OF this] show ?case by simp
qed

lemma fl_div_nonneg:
  assumes "0 < n" "isnan x \<or> fl_ge x (Num 0)"
  shows "\<exists>v. fl_div x n = Inr v \<and> (isnan v \<or> fl_ge v (Num 0))"
  using assms by (cases x) (auto simp: fl_div_def)

lemma sum_list_zip_nth:
  fixes g :: "'a \<times> 'b \<Rightarrow> real"
  assumes "length fs = length ts"
  shows "sum_list (map g (zip ts fs)) = (\<Sum>i < length ts. g (ts ! i, fs ! i))"
proof -
  have "sum_list (map g (zip ts fs)) = (\<Sum>i = 0..<length (zip ts fs). map g (zip ts fs) ! i)"
    by (simp add: sum_list_sum_nth)
  also have "\<dots> = (\<Sum>i < length ts. g (ts ! i, fs ! i))"
    using assms by (intro sum.cong) (auto simp: lessThan_atLeast0)
  finally show ?thesis .
qed

text \<open>
  Claim C7, as amended. For a non-empty Trainer Set (the two trainer lists of equal length):
  when every stored fitness and every estimate of the predictor is finite,
  \<^verbatim>\<open>predictor_fitness\<close> returns the arithmetic mean, over exactly the indices of the current
  trainers, of the absolute difference between the stored fitness and the predictor's
  estimate on that trainer's genome, and this value is at least 0; when some stored fitness
  or estimate is the sentinel, or a stored fitness and its estimate are the same infinity,
  it returns the sentinel; and whatever the scores, it returns a value that is the sentinel
  or is at least 0.
\<close>

theorem predictor_fitness_mean_abs_error:
  assumes ne: "trainers st \<noteq> []"
    and len: "length (trainers_true_fitness st) = length (trainers st)"
  shows "((\<forall>i < length (trainers st).
             is_finite (trainers_true_fitness st ! i) \<and>
             is_finite (fit_func C (genome p) (genome (trainers st ! i)))) \<longrightarrow>
          predictor_fitness C st p =
            Inr (Num ((\<Sum>i < length (trainers st).
                        \<bar>num_of (trainers_true_fitness st ! i) -
                         num_of (fit_func C (genome p) (genome (trainers st ! i)))\<bar>)
                      / real (length (trainers st)))) \<and>
          fl_ge (Num ((\<Sum>i < length (trainers st).
                        \<bar>num_of (trainers_true_fitness st ! i) -
                         num_of (fit_func C (genome p) (genome (trainers st ! i)))\<bar>)
                      / real (length (trainers st)))) (Num 0)) \<and>
         ((\<exists>i < length (trainers st).
             isnan (trainers_true_fitness st ! i) \<or>
             isnan (fit_func C (genome p) (genome (trainers st ! i))) \<or>
             trainers_true_fitness st ! i = PInf \<and>
               fit_func C (genome p) (genome (trainers st ! i)) = PInf \<or>
             trainers_true_fitness st ! i = NInf \<and>
               fit_func C (genome p) (genome (trainers st ! i)) = NInf) \<longrightarrow>
          predictor_fitness C st p = Inr NaN) \<and>
         (\<exists>v. predictor_fitness C st p = Inr v \<and> (isnan v \<or> fl_ge v (Num 0)))"
proof (intro conjI impI)
  let ?ts = "trainers st" and ?fs = "trainers_true_fitness st"
  let ?zs = "zip ?ts ?fs"
  let ?d = "\<lambda>i. \<bar>num_of (?fs ! i) - num_of (fit_func C (genome p) (genome (?ts ! i)))\<bar>"
  assume ok: "\<forall>i < length ?ts. is_finite (?fs ! i) \<and>
                 is_finite (fit_func C (genome p) (genome (?ts ! i)))"
  have fin: "\<forall>tr \<in> set ?zs. is_finite (abs_err C p tr)"
    using ok len by (auto simp: set_zip abs_err_finite)
  have "sum_list (map (\<lambda>tr. num_of (abs_err C p tr)) ?zs)
          = (\<Sum>i < length ?ts. num_of (abs_err C p (?ts ! i, ?fs ! i)))"
    by (rule sum_list_zip_nth [OF len])
  also have "\<dots> = (\<Sum>i < length ?ts. ?d i)"
    using ok by (intro sum.cong) (auto simp: abs_err_num)
  finally have s: "sum_list (map (\<lambda>tr. num_of (abs_err C p tr)) ?zs) = (\<Sum>i < length ?ts. ?d i)" .
  show "predictor_fitness C st p = Inr (Num ((\<Sum>i < length ?ts. ?d i) / real (length ?ts)))"
    using ne s by (simp add: predictor_fitness_def predictor_fitness_on_def
        fold_abs_err_num [OF fin] fl_div_def)
  have "0 \<le> (\<Sum>i < length ?ts. ?d i)" by (rule sum_nonneg) simp
  then show "fl_ge (Num ((\<Sum>i < length ?ts. ?d i) / real (length ?ts))) (Num 0)"
    by simp
next
  let ?ts = "trainers st" and ?fs = "trainers_true_fitness st"
  assume "\<exists>i < length ?ts.
             isnan (?fs ! i) \<or> isnan (fit_func C (genome p) (genome (?ts ! i))) \<or>
             ?fs ! i = PInf \<and> fit_func C (genome p) (genome (?ts ! i)) = PInf \<or>
             ?fs ! i = NInf \<and> fit_func C (genome p) (genome (?ts ! i)) = NInf"
  then obtain i where i: "i < length ?ts"
    and bad: "isnan (?fs ! i) \<or> isnan (fit_func C (genome p) (genome (?ts ! i))) \<or>
             ?fs ! i = PInf \<and> fit_func C (genome p) (genome (?ts ! i)) = PInf \<or>
             ?fs ! i = NInf \<and> fit_func C (genome p) (genome (?ts ! i)) = NInf" by blast
  have "(?ts ! i, ?fs ! i) \<in> set (zip ?ts ?fs)"
    using i len by (auto simp: set_zip)
  moreover have "isnan (abs_err C p (?ts ! i, ?fs ! i))"
    using bad by (simp only: abs_err_isnan)
  ultimately have "\<exists>tr \<in> set (zip ?ts ?fs). isnan (abs_err C p tr)" by blast
  from fold_abs_err_nan [OF this] show "predictor_fitness C st p = Inr NaN"
    using ne by (simp add: predictor_fitness_def predictor_fitness_on_def fl_div_def)
next
  have "isnan (Num 0) \<or> fl_ge (Num 0) (Num 0)" by simp
  from fold_abs_err_nonneg [OF this, of C p "zip (trainers st) (trainers_true_fitness st)"]
    fl_div_nonneg [of "length (trainers st)"] ne
  show "\<exists>v. predictor_fitness C st p = Inr v \<and> (isnan v \<or> fl_ge v (Num 0))"
    by (simp add: predictor_fitness_def predictor_fitness_on_def)
qed

theorem predictor_fitness_mean_abs_error_witness:
  "trainers (ex_state 0 0 200 [2, 3]) \<noteq> [] \<and>
   predictor_fitness ex_collab (ex_state 0 0 200 [2, 3]) (ex_indv 2) = Inr (Num 4) \<and>
   fl_ge (Num 4) (Num 0) \<and>
   predictor_fitness ex_collab (ex_state 0 0 200 [2, 3]) (ex_indv 0) = Inr NaN \<and>
   predictor_fitness (ex_collab\<lparr>fit_func := \<lambda>p s. PInf\<rparr>)
     ((ex_state 0 0 200 [2, 3])\<lparr>trainers_true_fitness := [PInf, Num 3, Num 5, Num 5]\<rparr>)
     (ex_indv 2) = Inr NaN"
proof -
  let ?st = "ex_state 0 0 200 [2, 3]"
  let ?sti = "?st\<lparr>trainers_true_fitness := [PInf, Num 3, Num 5, Num 5]\<rparr>"
  let ?ci = "ex_collab\<lparr>fit_func := \<lambda>p s. PInf\<rparr>"
  have ne: "trainers ?st \<noteq> []" by (simp add: ex_defs)
  have len: "length (trainers_true_fitness ?st) = length (trainers ?st)"
    by (simp add: ex_defs)
  have nei: "trainers ?sti \<noteq> []" by (simp add: ex_defs)
  have leni: "length (trainers_true_fitness ?sti) = length (trainers ?sti)"
    by (simp add: ex_defs)
  have ok: "\<forall>i < length (trainers ?st).
              is_finite (trainers_true_fitness ?st ! i) \<and>
              is_finite (fit_func ex_collab (genome (ex_indv 2)) (genome (trainers ?st ! i)))"
    by (auto simp: ex_defs less_Suc_eq)
  have bad: "\<exists>i < length (trainers ?st).
              isnan (trainers_true_fitness ?st ! i) \<or>
              isnan (fit_func ex_collab (genome (ex_indv 0)) (genome (trainers ?st ! i))) \<or>
              trainers_true_fitness ?st ! i = PInf \<and>
                fit_func ex_collab (genome (ex_indv 0)) (genome (trainers ?st ! i)) = PInf \<or>
              trainers_true_fitness ?st ! i = NInf \<and>
                fit_func ex_collab (genome (ex_indv 0)) (genome (trainers ?st ! i)) = NInf"
    by (rule exI [of _ 0]) (simp add: ex_defs)
  have badi: "\<exists>i < length (trainers ?sti).
              isnan (trainers_true_fitness ?sti ! i) \<or>
              isnan (fit_func ?ci (genome (ex_indv 2)) (genome (trainers ?sti ! i))) \<or>
              trainers_true_fitness ?sti ! i = PInf \<and>
                fit_func ?ci (genome (ex_indv 2)) (genome (trainers ?sti ! i)) = PInf \<or>
              trainers_true_fitness ?sti ! i = NInf \<and>
                fit_func ?ci (genome (ex_indv 2)) (genome (trainers ?sti ! i)) = NInf"
    by (rule exI [of _ 0]) (simp add: ex_defs)
  from predictor_fitness_mean_abs_error [OF ne len, of ex_collab "ex_indv 2"] ok
  have "predictor_fitness ex_collab ?st (ex_indv 2) =
          Inr (Num ((\<Sum>i < length (trainers ?st).
                        \<bar>num_of (trainers_true_fitness ?st ! i) -
                         num_of (fit_func ex_collab (genome (ex_indv 2)) (genome (trainers ?st ! i)))\<bar>)
                      / real (length (trainers ?st))))"
    by blast
  then have a: "predictor_fitness ex_collab ?st (ex_indv 2) = Inr (Num 4)"
    by (simp add: ex_defs)
  from predictor_fitness_mean_abs_error [OF ne len, of ex_collab "ex_indv 0"] bad
  have b: "predictor_fitness ex_collab ?st (ex_indv 0) = Inr NaN"
    by blast
  from predictor_fitness_mean_abs_error [OF nei leni, of ?ci "ex_indv 2"] badi
  have c: "predictor_fitness ?ci ?sti (ex_indv 2) = Inr NaN"
    by blast
  from ne a b c show ?thesis by simp
qed

text \<open>
  Claim C7 as stated fails: a predictor that cannot score a trainer gets the sentinel as
  its fitness, and the comparison of the sentinel with 0 is false.
\<close>

theorem predictor_fitness_nan_counterexample:
  "predictor_fitness ex_collab (ex_state 0 0 200 [2, 3]) (ex_indv 0) = Inr NaN \<and>
   \<not> fl_ge NaN (Num 0)"
  by (simp add: predictor_fitness_def predictor_fitness_on_def abs_err_def fl_div_def ex_defs)

subsection \<open>Division by the number of trainers\<close>

lemma rejected_all:
  assumes "\<forall>i < length xs. int i \<in> set sub"
  shows "rejected sub xs = []"
  using assms by (auto simp: rejected_def filter_empty_conv in_set_enumerate_eq)

lemma all_indices_in_default: "\<forall>i < n. int i \<in> set (subset_or_all None n)"
  by (simp add: subset_or_all_def)

lemma trainers_dump_populations:
  "trainers (snd (dump_populations C s_subset p_subset t_subset with_removal st)) =
     (if with_removal
      then rejected (subset_or_all t_subset (length (trainers st))) (trainers st)
      else trainers st)"
  by (simp add: dump_populations_def Island_dump_population_def Let_def split: prod.splits)

lemma trainers_load_populations:
  assumes "load_populations C (slist, plist, tlist) replace st = Inr st'"
  shows "trainers st' =
           (if replace then [] else trainers st) @ map (\<lambda>(d, t_fit). sol_load C d) tlist"
  using assms by (auto simp: load_populations_def Let_def split: sum.splits)

text \<open>
  Claim C10. \<^verbatim>\<open>predictor_fitness\<close> returns a value whenever the Trainer Set is non-empty
  and raises a division-by-zero error whenever it is empty; the Trainer Set is empty after
  \<^verbatim>\<open>dump_populations\<close> with removal of all trainer indices, and after a replacing
  \<^verbatim>\<open>load_populations\<close> of a snapshot with no trainer.
\<close>

theorem predictor_fitness_zero_division:
  "(trainers st \<noteq> [] \<longrightarrow> (\<exists>v. predictor_fitness C st p = Inr v)) \<and>
   (trainers st = [] \<longrightarrow> predictor_fitness C st p = Inl ZeroDivisionError) \<and>
   ((\<forall>i < length (trainers st). int i \<in> set (subset_or_all t_subset (length (trainers st)))) \<longrightarrow>
      trainers (snd (dump_populations C s_subset p_subset t_subset True st)) = []) \<and>
   (load_populations C (slist, plist, []) True st = Inr st' \<longrightarrow> trainers st' = [])"
proof (intro conjI impI)
  assume "trainers st \<noteq> []"
  then show "\<exists>v. predictor_fitness C st p = Inr v"
    by (simp add: predictor_fitness_def predictor_fitness_on_def fl_div_def)
next
  assume "trainers st = []"
  then show "predictor_fitness C st p = Inl ZeroDivisionError"
    by (simp add: predictor_fitness_def predictor_fitness_on_def fl_div_def)
next
  assume "\<forall>i < length (trainers st). int i \<in> set (subset_or_all t_subset (length (trainers st)))"
  then show "trainers (snd (dump_populations C s_subset p_subset t_subset True st)) = []"
    by (simp add: trainers_dump_populations rejected_all)
next
  assume "load_populations C (slist, plist, []) True st = Inr st'"
  from trainers_load_populations [OF this] show "trainers st' = []" by simp
qed

theorem predictor_fitness_zero_division_witness:
  "trainers (ex_state 0 0 200 [2, 3]) \<noteq> [] \<and>
   predictor_fitness ex_collab (ex_state 0 0 200 [2, 3]) (ex_indv 2) = Inr (Num 4) \<and>
   trainers (snd (dump_populations ex_collab (Some []) (Some []) None True
                    (ex_state 0 0 200 [2, 3]))) = [] \<and>
   predictor_fitness ex_collab
     (snd (dump_populations ex_collab (Some []) (Some []) None True (ex_state 0 0 200 [2, 3])))
     (ex_indv 2) = Inl ZeroDivisionError \<and>
   load_populations ex_collab ([3], [2], []) True (ex_state 0 0 200 [2, 3]) =
     Inr ((ex_state 0 0 200 [2, 3])
            \<lparr>solution_island := \<lparr>pop = [\<lparr>genome = 3, fit_set = False\<rparr>], age = 0,
                                  fitness_evals = 200, hidden = 0\<rparr>,
             predictor_island := \<lparr>pop = [\<lparr>genome = 2, fit_set = False\<rparr>], age = 0,
                                   fitness_evals = 1, hidden = 0\<rparr>,
             trainers := [], trainers_true_fitness := [],
             best_predictor := \<lparr>genome = 2, fit_set = False\<rparr>\<rparr>)"
proof -
  let ?st = "ex_state 0 0 200 [2, 3]"
  let ?d = "snd (dump_populations ex_collab (Some []) (Some []) None True ?st)"
  let ?l = "(?st
            \<lparr>solution_island := \<lparr>pop = [\<lparr>genome = 3, fit_set = False\<rparr>], age = 0,
                                  fitness_evals = 200, hidden = 0\<rparr>,
             predictor_island := \<lparr>pop = [\<lparr>genome = 2, fit_set = False\<rparr>], age = 0,
                                   fitness_evals = 1, hidden = 0\<rparr>,
             trainers := [], trainers_true_fitness := [],
             best_predictor := \<lparr>genome = 2, fit_set = False\<rparr>\<rparr>)"
  have ne: "trainers ?st \<noteq> []" by (simp add: ex_defs)
  have v: "predictor_fitness ex_collab ?st (ex_indv 2) = Inr (Num 4)"
    by (simp add: predictor_fitness_def predictor_fitness_on_def abs_err_def fl_div_def ex_defs)
  have all: "\<forall>i < length (trainers ?st). int i \<in> set (subset_or_all None (length (trainers ?st)))"
    by (simp add: subset_or_all_def)
  have ld: "load_populations ex_collab ([3], [2], []) True ?st = Inr ?l"
    by (simp add: load_populations_def Island_load_population_def copy_indv_def ex_defs)
  from predictor_fitness_zero_division
         [of ?st ex_collab "ex_indv 2" None "Some []" "Some []" "[3]" "[2]" ?l] all ld
  have e: "trainers ?d = []" and "trainers ?l = []" by blast+
  from predictor_fitness_zero_division
         [of ?d ex_collab "ex_indv 2" None "Some []" "Some []" "[3]" "[2]" ?l] e
  have z: "predictor_fitness ex_collab ?d (ex_indv 2) = Inl ZeroDivisionError" by blast
  from ne v e z ld show ?thesis by simp
qed

subsection \<open>Trainer replacement\<close>

lemma add_new_trainer_frame:
  assumes "add_new_trainer C st = Inr st'"
  shows "\<exists>s loc. trainer_location st = Inr loc \<and>
           st' = st\<lparr>trainers := list_update (trainers st) (nat loc) s\<rparr>"
  using assms by (auto simp: add_new_trainer_def Let_def split: list.splits sum.splits)

lemma ex_candidate_variance_3:
  "candidate_variance ex_collab [ex_indv 2, ex_indv 3] (ex_indv 3) = Num (9 / 4)"
  by (simp add: candidate_variance_def np_var_def ex_defs power2_eq_square)

lemma ex_candidate_variance_5:
  "candidate_variance ex_collab [ex_indv 2, ex_indv 3] (ex_indv 5) = Num (25 / 4)"
  by (simp add: candidate_variance_def np_var_def ex_defs power2_eq_square)

lemma ex_scan:
  "fold (scan_step ex_collab [ex_indv 2, ex_indv 3]) [ex_indv 3, ex_indv 5] (ex_indv 3, Num 0)
     = (ex_indv 5, Num (25 / 4))"
  by (simp add: scan_step_def ex_candidate_variance_3 ex_candidate_variance_5 copy_indv_def Let_def)

lemma ex_add_new_trainer:
  "0 \<le> sage \<Longrightarrow> sage < 50 \<Longrightarrow>
   add_new_trainer ex_collab (ex_state sage page se [2, 3]) =
     Inr ((ex_state sage page se [2, 3])
            \<lparr>trainers := [ex_indv 5, ex_indv 3, ex_indv 5, ex_indv 5]\<rparr>)"
  using ex_scan
  by (simp add: add_new_trainer_def trainer_location_def ex_state_def)

text \<open>
  Claim C1 fails on the code. With trainers of genomes 3, 3, 5, 5 and stored exact
  fitnesses 3, 3, 5, 5, \<^verbatim>\<open>add_new_trainer\<close> at solution age 0 puts the candidate of
  genome 5 into slot 0 and leaves the stored fitness of that slot at 3, while the exact
  fitness of the genome now in the slot is 5.
\<close>

theorem add_new_trainer_stale_fitness:
  "add_new_trainer ex_collab (ex_state 0 0 200 [2, 3]) =
     Inr ((ex_state 0 0 200 [2, 3])\<lparr>trainers := [ex_indv 5, ex_indv 3, ex_indv 5, ex_indv 5]\<rparr>) \<and>
   trainers_true_fitness
     ((ex_state 0 0 200 [2, 3])\<lparr>trainers := [ex_indv 5, ex_indv 3, ex_indv 5, ex_indv 5]\<rparr>) ! 0
     = Num 3 \<and>
   solution_fitness_true ex_collab (ex_indv 5) = Num 5"
  using ex_add_new_trainer [of 0 0 200]
  by (simp add: ex_state_def solution_fitness_true_def ex_collab_def ex_indv_def)

subsection \<open>The scheduling loop\<close>

lemma evolve_predictors_sound:
  assumes "evolve_predictors C st = Some y"
  shows "\<forall>st1. y = Inr st1 \<longrightarrow> (\<exists>k. loop_run C k st st1 \<and> ratio_reached st1)"
  using assms
proof (induction rule: evolve_predictors.raw_induct [rotated 1, consumes 1])
  case (1 evolve C st y)
  show ?case
  proof (intro allI impI)
    fix st1 assume y: "y = Inr st1"
    from 1(2) y obtain r where r: "current_ratio st = Inr r"
      by (auto split: sum.splits)
    show "\<exists>k. loop_run C k st st1 \<and> ratio_reached st1"
    proof (cases "r < predictor_ratio st")
      case True
      with 1(2) r y obtain st' where once: "evolve_predictor_once C st = Inr st'"
        and rec: "evolve C st' = Some (Inr st1)"
        by (auto split: sum.splits)
      from 1(1) [OF rec] obtain k where "loop_run C k st' st1" "ratio_reached st1" by blast
      with once r True have "loop_run C (Suc k) st st1 \<and> ratio_reached st1"
        by (simp add: ratio_below_def)
      then show ?thesis by blast
    next
      case False
      with 1(2) r y have "st1 = st" by simp
      with r False have "loop_run C 0 st st1 \<and> ratio_reached st1"
        by (simp add: ratio_reached_def)
      then show ?thesis by blast
    qed
  qed
qed

lemma evolve_predictors_complete:
  "loop_run C k st st1 \<Longrightarrow> ratio_reached st1 \<Longrightarrow> evolve_predictors C st = Some (Inr st1)"
proof (induction k arbitrary: st)
  case 0
  then show ?case
    by (subst evolve_predictors.simps) (auto simp: ratio_reached_def split: sum.splits)
next
  case (Suc k)
  from Suc.prems(1) obtain st' where b: "ratio_below st"
    and once: "evolve_predictor_once C st = Inr st'" and run: "loop_run C k st' st1"
    by (auto split: sum.splits)
  from Suc.IH [OF run Suc.prems(2)] have "evolve_predictors C st' = Some (Inr st1)" .
  with b once show ?case
    by (subst evolve_predictors.simps) (auto simp: ratio_below_def split: sum.splits)
qed

lemma evolve_predictors_loop_run:
  "evolve_predictors C st = Some (Inr st1) \<longleftrightarrow> (\<exists>k. loop_run C k st st1 \<and> ratio_reached st1)"
  using evolve_predictors_sound evolve_predictors_complete by blast

subsection \<open>What a generational step changes\<close>

lemma evolve_predictor_once_frame:
  assumes "evolve_predictor_once C st = Inr st'"
  shows "\<exists>ts pisl. st' = st\<lparr>trainers := ts, predictor_island := pisl\<rparr> \<and>
           length ts = length (trainers st)"
proof -
  from assms obtain due where due: "trainer_update_due st = Inr due"
    by (auto simp: evolve_predictor_once_def split: sum.splits)
  show ?thesis
  proof (cases due)
    case True
    with assms due obtain st1 isle where a: "add_new_trainer C st = Inr st1"
      and st': "st' = st1\<lparr>predictor_island := isle\<rparr>"
      by (auto simp: evolve_predictor_once_def update_trainers_def split: sum.splits)
    from add_new_trainer_frame [OF a] obtain s loc where
      "st1 = st\<lparr>trainers := list_update (trainers st) (nat loc) s\<rparr>" by blast
    with st' have "st' = st\<lparr>trainers := list_update (trainers st) (nat loc) s,
                              predictor_island := isle\<rparr>" by simp
    then show ?thesis by (intro exI conjI) (assumption, simp)
  next
    case False
    with assms due obtain isle where "st' = st\<lparr>predictor_island := isle\<rparr>"
      by (auto simp: evolve_predictor_once_def split: sum.splits)
    then have "st' = st\<lparr>trainers := trainers st, predictor_island := isle\<rparr>" by simp
    then show ?thesis by (intro exI conjI) (assumption, simp)
  qed
qed

lemma loop_run_frame:
  "loop_run C k st st1 \<Longrightarrow>
   \<exists>ts pisl. st1 = st\<lparr>trainers := ts, predictor_island := pisl\<rparr> \<and>
     length ts = length (trainers st)"
proof (induction k arbitrary: st)
  case 0
  then have "st1 = st\<lparr>trainers := trainers st, predictor_island := predictor_island st\<rparr>"
    by simp
  then show ?case by (intro exI conjI) (assumption, simp)
next
  case (Suc k)
  from Suc.prems obtain st' where once: "evolve_predictor_once C st = Inr st'"
    and run: "loop_run C k st' st1"
    by (auto split: sum.splits)
  from evolve_predictor_once_frame [OF once] obtain ts pisl where
    a: "st' = st\<lparr>trainers := ts, predictor_island := pisl\<rparr>" "length ts = length (trainers st)"
    by blast
  from Suc.IH [OF run] obtain ts' pisl' where
    b: "st1 = st'\<lparr>trainers := ts', predictor_island := pisl'\<rparr>" "length ts' = length (trainers st')"
    by blast
  from a b have "st1 = st\<lparr>trainers := ts', predictor_island := pisl'\<rparr>"
    "length ts' = length (trainers st)" by simp_all
  then show ?case by blast
qed

lemma finish_step_frame:
  assumes "finish_step C st1 = Inr st'"
  shows "\<exists>st2 isle.
           (st2 = st1 \<and> predictor_update_due st1 = Inr False \<or>
            update_best_predictor C st1 = Inr st2 \<and> predictor_update_due st1 = Inr True) \<and>
           sol_step C (solution_fitness_function C st2) (solution_island st2) = Inr isle \<and>
           sol_pareto C (solution_fitness_function C st2) isle = Inr (solution_island st') \<and>
           st' = st2\<lparr>solution_island := solution_island st'\<rparr>"
proof -
  from assms obtain due st2 where due: "predictor_update_due st1 = Inr due"
    and st2: "(if due then update_best_predictor C st1 else Inr st1) = Inr st2"
    and stp: "step_solutions C st2 = Inr st'"
    by (auto simp: finish_step_def split: sum.splits)
  from stp obtain isle isle' where
    "sol_step C (solution_fitness_function C st2) (solution_island st2) = Inr isle"
    "sol_pareto C (solution_fitness_function C st2) isle = Inr isle'"
    "st' = st2\<lparr>solution_island := isle'\<rparr>"
    by (auto simp: step_solutions_def split: sum.splits)
  moreover from due st2 have "st2 = st1 \<and> predictor_update_due st1 = Inr False \<or>
            update_best_predictor C st1 = Inr st2 \<and> predictor_update_due st1 = Inr True"
    by (cases due) auto
  ultimately show ?thesis by auto
qed

lemma update_best_predictor_frame:
  assumes "update_best_predictor C st = Inr st'"
  shows "\<exists>b. st' = st\<lparr>best_predictor := b,
                         solution_island := clear_fit_set (solution_island st)\<rparr>"
  using assms by (auto simp: update_best_predictor_def split: sum.splits)

lemma finish_step_unchanged:
  assumes "finish_step C st1 = Inr st'"
  shows "trainers st' = trainers st1 \<and>
         trainers_true_fitness st' = trainers_true_fitness st1 \<and>
         predictor_island st' = predictor_island st1 \<and>
         predictor_to_solution_eval_cost st' = predictor_to_solution_eval_cost st1"
proof -
  from finish_step_frame [OF assms] obtain st2 where
    a: "st2 = st1 \<or> update_best_predictor C st1 = Inr st2"
    and b: "st' = st2\<lparr>solution_island := solution_island st'\<rparr>" by blast
  from a have "trainers st2 = trainers st1 \<and>
         trainers_true_fitness st2 = trainers_true_fitness st1 \<and>
         predictor_island st2 = predictor_island st1 \<and>
         predictor_to_solution_eval_cost st2 = predictor_to_solution_eval_cost st1"
    by (auto dest!: update_best_predictor_frame)
  moreover from b have "trainers st' = trainers st2 \<and>
         trainers_true_fitness st' = trainers_true_fitness st2 \<and>
         predictor_island st' = predictor_island st2 \<and>
         predictor_to_solution_eval_cost st' = predictor_to_solution_eval_cost st2"
    by (metis coev.select_convs coev.surjective coev.update_convs(1))
  ultimately show ?thesis by simp
qed

lemma generational_step_loop_run:
  "generational_step C st = Some (Inr st') \<longleftrightarrow>
     (\<exists>k st1. loop_run C k st st1 \<and> ratio_reached st1 \<and> finish_step C st1 = Inr st')"
proof
  assume "generational_step C st = Some (Inr st')"
  then obtain st1 where "evolve_predictors C st = Some (Inr st1)" "finish_step C st1 = Inr st'"
    by (auto simp: generational_step_def split: option.splits sum.splits)
  then show "\<exists>k st1. loop_run C k st st1 \<and> ratio_reached st1 \<and> finish_step C st1 = Inr st'"
    by (auto simp: evolve_predictors_loop_run)
next
  assume "\<exists>k st1. loop_run C k st st1 \<and> ratio_reached st1 \<and> finish_step C st1 = Inr st'"
  then obtain k st1 where "loop_run C k st st1" "ratio_reached st1" "finish_step C st1 = Inr st'"
    by blast
  then show "generational_step C st = Some (Inr st')"
    by (simp add: generational_step_def evolve_predictors_complete)
qed

subsection \<open>The budget-balancing schedule\<close>

lemma init_trainers_length:
  "init_trainers C spop ppop n draws ts fs = Some (Inr (ts', fs')) \<Longrightarrow>
   length ts' = length ts + n \<and> length fs' = length fs + n"
proof (induction n arbitrary: draws ts fs)
  case 0
  then show ?case by simp
next
  case (Suc n)
  from Suc.prems obtain ind tf draws' where
    "init_trainers C spop ppop n draws' (ts @ [copy_indv (spop ! ind)]) (fs @ [tf])
       = Some (Inr (ts', fs'))"
    by (auto split: option.splits sum.splits)
  from Suc.IH [OF this] show ?case by simp
qed

lemma construct_trainers:
  assumes "construct C sisl pisl pr puf tps tuf draws = Some (Inr st0)"
  shows "length (trainers st0) = nat tps \<and>
         length (trainers_true_fitness st0) = nat tps \<and>
         predictor_to_solution_eval_cost st0 = int (length (trainers st0))"
proof -
  from assms obtain ts fs b where
    i: "init_trainers C (pop sisl) (pop pisl) (nat tps) draws [] [] = Some (Inr (ts, fs))"
    and st0: "trainers st0 = ts" "trainers_true_fitness st0 = fs"
      "predictor_to_solution_eval_cost st0 = int (length ts)"
    by (auto simp: construct_def split: option.splits sum.splits)
  from init_trainers_length [OF i] st0 show ?thesis by simp
qed

text \<open>
  Claim C5. \<^verbatim>\<open>generational_step\<close> computes the ratio
  \<open>predictorEvals / (predictorEvals + solutionEvals / costRatio)\<close> from the two engines'
  evaluation counters, where the cost ratio is the number of trainers at construction; it
  returns exactly when some number \<open>k\<close> of passes of the predictor engine, each made with
  the ratio strictly below the target, lead to a state whose ratio is not below the target,
  and what follows the loop succeeds; what follows the loop advances the solution engine by
  exactly one generation (after the scheduled refresh of the cache, if due).
\<close>

theorem generational_step_schedule:
  "current_ratio st =
     (if predictor_to_solution_eval_cost st = 0 \<or>
         real_of_int (fitness_evals (predictor_island st)) +
           real_of_int (fitness_evals (solution_island st)) /
             real_of_int (predictor_to_solution_eval_cost st) = 0
      then Inl ZeroDivisionError
      else Inr (real_of_int (fitness_evals (predictor_island st)) /
                 (real_of_int (fitness_evals (predictor_island st)) +
                  real_of_int (fitness_evals (solution_island st)) /
                    real_of_int (predictor_to_solution_eval_cost st)))) \<and>
   (construct C sisl pisl pr puf tps tuf draws = Some (Inr st0) \<longrightarrow>
      predictor_to_solution_eval_cost st0 = int (length (trainers st0))) \<and>
   (generational_step C st = Some (Inr st') \<longleftrightarrow>
      (\<exists>k st1. loop_run C k st st1 \<and> ratio_reached st1 \<and> finish_step C st1 = Inr st')) \<and>
   (generational_step C st = Some (Inr st') \<longrightarrow>
      predictor_to_solution_eval_cost st' = predictor_to_solution_eval_cost st) \<and>
   (finish_step C st1 = Inr st' \<longrightarrow>
      (\<exists>st2 isle.
          (st2 = st1 \<and> predictor_update_due st1 = Inr False \<or>
           update_best_predictor C st1 = Inr st2 \<and> predictor_update_due st1 = Inr True) \<and>
          sol_step C (solution_fitness_function C st2) (solution_island st2) = Inr isle \<and>
          sol_pareto C (solution_fitness_function C st2) isle = Inr (solution_island st') \<and>
          st' = st2\<lparr>solution_island := solution_island st'\<rparr>))"
proof (intro conjI impI)
  show "current_ratio st =
     (if predictor_to_solution_eval_cost st = 0 \<or>
         real_of_int (fitness_evals (predictor_island st)) +
           real_of_int (fitness_evals (solution_island st)) /
             real_of_int (predictor_to_solution_eval_cost st) = 0
      then Inl ZeroDivisionError
      else Inr (real_of_int (fitness_evals (predictor_island st)) /
                 (real_of_int (fitness_evals (predictor_island st)) +
                  real_of_int (fitness_evals (solution_island st)) /
                    real_of_int (predictor_to_solution_eval_cost st))))"
    by (simp add: current_ratio_def Let_def)
next
  assume "construct C sisl pisl pr puf tps tuf draws = Some (Inr st0)"
  from construct_trainers [OF this]
  show "predictor_to_solution_eval_cost st0 = int (length (trainers st0))" by simp
next
  show "generational_step C st = Some (Inr st') \<longleftrightarrow>
      (\<exists>k st1. loop_run C k st st1 \<and> ratio_reached st1 \<and> finish_step C st1 = Inr st')"
    by (rule generational_step_loop_run)
next
  assume "generational_step C st = Some (Inr st')"
  then obtain k st1a where run: "loop_run C k st st1a" and fin: "finish_step C st1a = Inr st'"
    by (auto simp: generational_step_loop_run)
  from loop_run_frame [OF run] have
    "predictor_to_solution_eval_cost st1a = predictor_to_solution_eval_cost st" by auto
  with finish_step_unchanged [OF fin]
  show "predictor_to_solution_eval_cost st' = predictor_to_solution_eval_cost st" by simp
next
  assume "finish_step C st1 = Inr st'"
  from finish_step_frame [OF this]
  show "\<exists>st2 isle.
          (st2 = st1 \<and> predictor_update_due st1 = Inr False \<or>
           update_best_predictor C st1 = Inr st2 \<and> predictor_update_due st1 = Inr True) \<and>
          sol_step C (solution_fitness_function C st2) (solution_island st2) = Inr isle \<and>
          sol_pareto C (solution_fitness_function C st2) isle = Inr (solution_island st') \<and>
          st' = st2\<lparr>solution_island := solution_island st'\<rparr>" .
qed

lemma ex_once:
  assumes "(a + 1) mod 50 \<noteq> 0"
  shows "evolve_predictor_once ex_collab ((ex_state 0 0 200 [2, 3])\<lparr>predictor_island := ex_pisl a e\<rparr>)
     = Inr ((ex_state 0 0 200 [2, 3])\<lparr>predictor_island := ex_pisl (a + 1) (e + 2)\<rparr>)"
  using assms
  by (simp add: evolve_predictor_once_def trainer_update_due_def ex_pisl_def ex_defs)

lemma ex_ratio:
  "current_ratio ((ex_state 0 0 200 [2, 3])\<lparr>predictor_island := ex_pisl a e\<rparr>) =
     (if e = -50 then Inl ZeroDivisionError else Inr (real_of_int e / (real_of_int e + 50)))"
  by (simp add: current_ratio_def ex_pisl_def ex_defs Let_def) 

lemma ex_state_pisl:
  "ex_state 0 0 200 [2, 3] = (ex_state 0 0 200 [2, 3])\<lparr>predictor_island := ex_pisl 0 1\<rparr>"
  by (simp add: ex_state_def ex_pisl_def)

lemma ex_loop_run:
  "loop_run ex_collab (Suc (Suc (Suc 0))) (ex_state 0 0 200 [2, 3])
     ((ex_state 0 0 200 [2, 3])\<lparr>predictor_island := ex_pisl 3 7\<rparr>)"
  by (subst ex_state_pisl) (simp add: ex_once ex_ratio ratio_below_def, simp add: ex_state_def)

lemma ex_ratio_reached:
  "ratio_reached ((ex_state 0 0 200 [2, 3])\<lparr>predictor_island := ex_pisl 3 7\<rparr>)"
  by (simp add: ratio_reached_def ex_ratio) (simp add: ex_state_def)

lemma ex_finish_step:
  "finish_step ex_collab ((ex_state 0 0 200 [2, 3])\<lparr>predictor_island := ex_pisl 3 7\<rparr>) =
     Inr ((ex_state 1 0 202 [2, 3])\<lparr>predictor_island := ex_pisl 3 7\<rparr>)"
  by (simp add: finish_step_def predictor_update_due_def step_solutions_def ex_defs)

lemma ex_construct:
  "construct ex_collab (solution_island (ex_state 0 0 200 [2, 3])) (ex_pisl 0 1) (1 / 10) 50 4 50
     [0, 1, 1, 0] =
   Some (Inr ((ex_state 0 0 200 [2, 3])
     \<lparr>trainers := [ex_indv 3, ex_indv 5, ex_indv 5, ex_indv 3],
      trainers_true_fitness := [Num 3, Num 5, Num 5, Num 3],
      best_predictor := ex_indv 2\<rparr>))"
  by (simp add: construct_def eval_nat_numeral solution_fitness_true_def copy_indv_def
      ex_pisl_def ex_defs)

theorem generational_step_schedule_witness:
  "generational_step ex_collab (ex_state 0 0 200 [2, 3]) =
     Some (Inr ((ex_state 1 0 202 [2, 3])\<lparr>predictor_island := ex_pisl 3 7\<rparr>)) \<and>
   current_ratio (ex_state 0 0 200 [2, 3]) = Inr (1 / 51) \<and>
   predictor_to_solution_eval_cost
     ((ex_state 0 0 200 [2, 3])
        \<lparr>trainers := [ex_indv 3, ex_indv 5, ex_indv 5, ex_indv 3],
         trainers_true_fitness := [Num 3, Num 5, Num 5, Num 3],
         best_predictor := ex_indv 2\<rparr>) = 4"
proof -
  let ?st = "ex_state 0 0 200 [2, 3]"
  let ?mid = "?st\<lparr>predictor_island := ex_pisl 3 7\<rparr>"
  let ?res = "(ex_state 1 0 202 [2, 3])\<lparr>predictor_island := ex_pisl 3 7\<rparr>"
  let ?con = "?st\<lparr>trainers := [ex_indv 3, ex_indv 5, ex_indv 5, ex_indv 3],
         trainers_true_fitness := [Num 3, Num 5, Num 5, Num 3],
         best_predictor := ex_indv 2\<rparr>"
  note t = generational_step_schedule [where st = ?st and C = ex_collab
      and sisl = "solution_island ?st" and pisl = "ex_pisl 0 1" and pr = "1 / 10" and puf = 50
      and tps = 4 and tuf = 50 and draws = "[0, 1, 1, 0]" and ?st0.0 = ?con and st' = ?res
      and ?st1.0 = ?mid]
  from ex_loop_run ex_ratio_reached ex_finish_step
  have "\<exists>k st1. loop_run ex_collab k ?st st1 \<and> ratio_reached st1 \<and>
          finish_step ex_collab st1 = Inr ?res" by blast
  with t have a: "generational_step ex_collab ?st = Some (Inr ?res)" by blast
  from t have "current_ratio ?st = Inr (1 / 51)" by (simp add: ex_state_def)
  moreover from t ex_construct have "predictor_to_solution_eval_cost ?con = 4" by simp
  ultimately show ?thesis using a by simp
qed

subsection \<open>The trainer schedule\<close>

lemma due_50:
  fixes a :: int
  assumes "0 \<le> a" "a < 200"
  shows "((a + 1) mod 50 = 0) = (a \<in> {49, 99, 149, 199})"
  using assms by auto presburger

lemma slot_50:
  fixes a :: int
  assumes "0 \<le> a" "a < 200"
  shows "(a div 50) mod 4 = a div 50"
  using assms by auto

lemma evolve_predictor_once_trainers:
  assumes "evolve_predictor_once C st = Inr st'"
  shows "(trainer_update_due st = Inr True \<and>
          (\<exists>s loc. trainer_location st = Inr loc \<and>
                    trainers st' = list_update (trainers st) (nat loc) s)) \<or>
         (trainer_update_due st = Inr False \<and> trainers st' = trainers st)"
proof -
  from assms obtain due where due: "trainer_update_due st = Inr due"
    by (auto simp: evolve_predictor_once_def split: sum.splits)
  show ?thesis
  proof (cases due)
    case True
    with assms due obtain st1 isle where a: "add_new_trainer C st = Inr st1"
      and st': "st' = st1\<lparr>predictor_island := isle\<rparr>"
      by (auto simp: evolve_predictor_once_def update_trainers_def split: sum.splits)
    from add_new_trainer_frame [OF a] st' due True show ?thesis by auto
  next
    case False
    with assms due show ?thesis
      by (auto simp: evolve_predictor_once_def split: sum.splits)
  qed
qed

text \<open>
  Claim C6, as amended. With four trainers and trainer-update frequency 50, for predictor
  and solution ages from 0 to 199: the scheduler's update is due exactly at predictor ages
  49, 99, 149, 199; the slot of \<^verbatim>\<open>add_new_trainer\<close> is the solution age divided by 50
  (rounded down), that is 0, 1, 2, 3 at solution ages 49, 99, 149, 199; and a pass of the
  scheduling loop overwrites that slot at those predictor ages and leaves the trainers
  unchanged at the others.
\<close>

theorem trainer_schedule_scenario:
  assumes freq: "trainer_update_freq st = 50"
    and four: "length (trainers st) = 4"
    and page: "0 \<le> age (predictor_island st)" "age (predictor_island st) < 200"
    and sage: "0 \<le> age (solution_island st)" "age (solution_island st) < 200"
  shows "trainer_update_due st = Inr (age (predictor_island st) \<in> {49, 99, 149, 199}) \<and>
         trainer_location st = Inr (age (solution_island st) div 50) \<and>
         (age (solution_island st) = 49 \<longrightarrow> trainer_location st = Inr 0) \<and>
         (age (solution_island st) = 99 \<longrightarrow> trainer_location st = Inr 1) \<and>
         (age (solution_island st) = 149 \<longrightarrow> trainer_location st = Inr 2) \<and>
         (age (solution_island st) = 199 \<longrightarrow> trainer_location st = Inr 3) \<and>
         (evolve_predictor_once C st = Inr st' \<longrightarrow>
           (if age (predictor_island st) \<in> {49, 99, 149, 199}
            then \<exists>s. trainers st' =
                       list_update (trainers st) (nat (age (solution_island st) div 50)) s
            else trainers st' = trainers st))"
proof -
  have due: "trainer_update_due st = Inr (age (predictor_island st) \<in> {49, 99, 149, 199})"
    using freq due_50 [OF page] by (simp add: trainer_update_due_def)
  have ne: "trainers st \<noteq> []" using four by auto
  have loc: "trainer_location st = Inr (age (solution_island st) div 50)"
    using freq four ne slot_50 [OF sage] by (simp add: trainer_location_def)
  have slots: "age (solution_island st) = 49 \<longrightarrow> trainer_location st = Inr 0"
    "age (solution_island st) = 99 \<longrightarrow> trainer_location st = Inr 1"
    "age (solution_island st) = 149 \<longrightarrow> trainer_location st = Inr 2"
    "age (solution_island st) = 199 \<longrightarrow> trainer_location st = Inr 3"
    using loc by simp_all
  have pass: "evolve_predictor_once C st = Inr st' \<longrightarrow>
           (if age (predictor_island st) \<in> {49, 99, 149, 199}
            then \<exists>s. trainers st' =
                       list_update (trainers st) (nat (age (solution_island st) div 50)) s
            else trainers st' = trainers st)"
  proof
    assume "evolve_predictor_once C st = Inr st'"
    from evolve_predictor_once_trainers [OF this] due loc show
      "if age (predictor_island st) \<in> {49, 99, 149, 199}
       then \<exists>s. trainers st' =
                  list_update (trainers st) (nat (age (solution_island st) div 50)) s
       else trainers st' = trainers st"
      by (auto split: if_splits)
  qed
  from due loc slots pass show ?thesis by blast
qed

lemma ex_once_gen:
  assumes "predictor_island st = ex_pisl a e" "trainer_update_freq st = 50"
    and "(a + 1) mod 50 \<noteq> 0"
  shows "evolve_predictor_once ex_collab st = Inr (st\<lparr>predictor_island := ex_pisl (a + 1) (e + 2)\<rparr>)"
  using assms
  by (simp add: evolve_predictor_once_def trainer_update_due_def ex_pisl_def ex_collab_def
      ex_engine_step_def ex_indv_def)

lemma ex_ratio_gen:
  assumes "predictor_island st = ex_pisl a e" "fitness_evals (solution_island st) = 200"
    and "predictor_to_solution_eval_cost st = 4"
  shows "current_ratio st =
     (if e = -50 then Inl ZeroDivisionError else Inr (real_of_int e / (real_of_int e + 50)))"
  using assms by (simp add: current_ratio_def ex_pisl_def Let_def)

lemma ex_once_49:
  "evolve_predictor_once ex_collab (ex_state 49 49 200 [2, 3]) =
     Inr ((ex_state 49 49 200 [2, 3])
            \<lparr>trainers := [ex_indv 5, ex_indv 3, ex_indv 5, ex_indv 5],
             predictor_island := ex_pisl 50 3\<rparr>)"
  using ex_add_new_trainer [of 49 49 200]
  by (simp add: evolve_predictor_once_def trainer_update_due_def update_trainers_def
      clear_fit_set_def) (simp add: ex_defs ex_pisl_def)

lemma ex_generational_step_49:
  "generational_step ex_collab (ex_state 49 49 200 [2, 3]) =
     Some (Inr ((ex_state 50 49 202 [2, 3])
            \<lparr>trainers := [ex_indv 5, ex_indv 3, ex_indv 5, ex_indv 5],
             predictor_island := ex_pisl 52 7,
             best_predictor := ex_indv 2\<rparr>))"
proof -
  let ?st = "ex_state 49 49 200 [2, 3]"
  let ?a = "?st\<lparr>trainers := [ex_indv 5, ex_indv 3, ex_indv 5, ex_indv 5],
                predictor_island := ex_pisl 50 3\<rparr>"
  let ?b = "?a\<lparr>predictor_island := ex_pisl 51 5\<rparr>"
  let ?c = "?b\<lparr>predictor_island := ex_pisl 52 7\<rparr>"
  have r0: "ratio_below ?st"
    by (simp add: ratio_below_def current_ratio_def ex_state_def)
  have s1: "evolve_predictor_once ex_collab ?a = Inr ?b"
    using ex_once_gen [of ?a 50 3] by (simp add: ex_state_def)
  have s2: "evolve_predictor_once ex_collab ?b = Inr ?c"
    using ex_once_gen [of ?b 51 5] by (simp add: ex_state_def)
  have r1: "ratio_below ?a"
    using ex_ratio_gen [of ?a 50 3] by (simp add: ratio_below_def ex_state_def)
  have r2: "ratio_below ?b"
    using ex_ratio_gen [of ?b 51 5] by (simp add: ratio_below_def ex_state_def)
  have r3: "ratio_reached ?c"
    using ex_ratio_gen [of ?c 52 7] by (simp add: ratio_reached_def ex_state_def)
  have run: "loop_run ex_collab (Suc (Suc (Suc 0))) ?st ?c"
    using r0 ex_once_49 r1 s1 r2 s2 by simp
  have fin: "finish_step ex_collab ?c =
     Inr ((ex_state 50 49 202 [2, 3])
            \<lparr>trainers := [ex_indv 5, ex_indv 3, ex_indv 5, ex_indv 5],
             predictor_island := ex_pisl 52 7,
             best_predictor := ex_indv 2\<rparr>)"
    by (simp add: finish_step_def predictor_update_due_def update_best_predictor_def
        step_solutions_def clear_fit_set_def copy_indv_def solution_fitness_function_def
        ex_pisl_def ex_defs)
  from run r3 fin show ?thesis
    by (subst generational_step_loop_run) blast
qed

theorem trainer_schedule_scenario_witness:
  "trainer_update_due (ex_state 49 49 200 [2, 3]) = Inr True \<and>
   trainer_location (ex_state 49 49 200 [2, 3]) = Inr 0 \<and>
   trainer_location (ex_state 99 49 200 [2, 3]) = Inr 1 \<and>
   trainer_location (ex_state 149 49 200 [2, 3]) = Inr 2 \<and>
   trainer_location (ex_state 199 49 200 [2, 3]) = Inr 3 \<and>
   evolve_predictor_once ex_collab (ex_state 49 49 200 [2, 3]) =
     Inr ((ex_state 49 49 200 [2, 3])
            \<lparr>trainers := [ex_indv 5, ex_indv 3, ex_indv 5, ex_indv 5],
             predictor_island := ex_pisl 50 3\<rparr>)"
proof -
  have h: "trainer_update_freq (ex_state s p 200 [2, 3]) = 50"
    "length (trainers (ex_state s p 200 [2, 3])) = 4"
    "age (predictor_island (ex_state s p 200 [2, 3])) = p"
    "age (solution_island (ex_state s p 200 [2, 3])) = s" for s p
    by (simp_all add: ex_state_def)
  let ?r = "(ex_state 49 49 200 [2, 3])
            \<lparr>trainers := [ex_indv 5, ex_indv 3, ex_indv 5, ex_indv 5],
             predictor_island := ex_pisl 50 3\<rparr>"
  have t: "0 \<le> p \<Longrightarrow> p < 200 \<Longrightarrow> 0 \<le> s \<Longrightarrow> s < 200 \<Longrightarrow>
      trainer_update_due (ex_state s p 200 [2, 3]) = Inr (p \<in> {49, 99, 149, 199}) \<and>
      trainer_location (ex_state s p 200 [2, 3]) = Inr (s div 50)" for s p
    using trainer_schedule_scenario [of "ex_state s p 200 [2, 3]" ex_collab ?r]
    by (simp add: h)
  from t [of 49 49] t [of 49 99] t [of 49 149] t [of 49 199] ex_once_49
  show ?thesis by simp
qed

text \<open>
  Claim C6 as stated fails: at predictor age 49 and solution age 49 the loop is entered,
  the update is due and the slot overwritten is 0, not 1; after the whole
  \<^verbatim>\<open>generational_step\<close> slot 0 holds the new trainer and slot 1 keeps its own.
\<close>

theorem trainer_schedule_scenario_counterexample:
  "ratio_below (ex_state 49 49 200 [2, 3]) \<and>
   trainer_update_due (ex_state 49 49 200 [2, 3]) = Inr True \<and>
   trainer_location (ex_state 49 49 200 [2, 3]) = Inr 0 \<and>
   trainer_location (ex_state 49 49 200 [2, 3]) \<noteq> Inr 1 \<and>
   trainers (ex_state 49 49 200 [2, 3]) = [ex_indv 3, ex_indv 3, ex_indv 5, ex_indv 5] \<and>
   generational_step ex_collab (ex_state 49 49 200 [2, 3]) =
     Some (Inr ((ex_state 50 49 202 [2, 3])
            \<lparr>trainers := [ex_indv 5, ex_indv 3, ex_indv 5, ex_indv 5],
             predictor_island := ex_pisl 52 7,
             best_predictor := ex_indv 2\<rparr>))"
  using ex_generational_step_49
  by (simp add: ratio_below_def current_ratio_def trainer_update_due_def trainer_location_def
      ex_state_def)

subsection \<open>The length of the Trainer Set\<close>

lemma length_rejected:
  "length (rejected sub xs) = card {i. i < length xs \<and> int i \<notin> set sub}"
proof -
  have "length (rejected sub xs) =
          card {i. i < length (enumerate 0 xs) \<and>
                   (\<lambda>(i, x). int i \<notin> set sub) (enumerate 0 xs ! i)}"
    by (simp only: rejected_def length_map length_filter_conv_card)
  also have "{i. i < length (enumerate 0 xs) \<and>
                   (\<lambda>(i, x). int i \<notin> set sub) (enumerate 0 xs ! i)}
             = {i. i < length xs \<and> int i \<notin> set sub}"
    by (auto simp: nth_enumerate_eq)
  finally show ?thesis .
qed

lemma generational_step_trainers_length:
  assumes "generational_step C st = Some (Inr st')"
  shows "length (trainers st') = length (trainers st)"
proof -
  from assms obtain k st1 where run: "loop_run C k st st1" and fin: "finish_step C st1 = Inr st'"
    by (auto simp: generational_step_loop_run)
  from loop_run_frame [OF run] have "length (trainers st1) = length (trainers st)" by auto
  with finish_step_unchanged [OF fin] show ?thesis by simp
qed

text \<open>
  Claim C8, as amended. The constructor builds a Trainer Set of the configured size;
  \<^verbatim>\<open>add_new_trainer\<close>, \<^verbatim>\<open>generational_step\<close> and \<^verbatim>\<open>dump_populations\<close> without removal keep
  its length; \<^verbatim>\<open>dump_populations\<close> with removal keeps exactly the trainers whose index is
  not selected; \<^verbatim>\<open>load_populations\<close> makes the length the number of trainers of the
  snapshot when replacing, and adds that number when appending.
\<close>

theorem trainer_set_length:
  "(construct C sisl pisl pr puf tps tuf draws = Some (Inr st0) \<longrightarrow>
      length (trainers st0) = nat tps) \<and>
   (add_new_trainer C st = Inr st' \<longrightarrow> length (trainers st') = length (trainers st)) \<and>
   (generational_step C st = Some (Inr st') \<longrightarrow> length (trainers st') = length (trainers st)) \<and>
   length (trainers (snd (dump_populations C s_subset p_subset t_subset False st)))
     = length (trainers st) \<and>
   length (trainers (snd (dump_populations C s_subset p_subset t_subset True st)))
     = card {i. i < length (trainers st) \<and>
                int i \<notin> set (subset_or_all t_subset (length (trainers st)))} \<and>
   (load_populations C (slist, plist, tlist) replace st = Inr st' \<longrightarrow>
      length (trainers st') = (if replace then 0 else length (trainers st)) + length tlist)"
proof (intro conjI impI)
  assume "construct C sisl pisl pr puf tps tuf draws = Some (Inr st0)"
  from construct_trainers [OF this] show "length (trainers st0) = nat tps" by simp
next
  assume "add_new_trainer C st = Inr st'"
  from add_new_trainer_frame [OF this] show "length (trainers st') = length (trainers st)"
    by auto
next
  assume "generational_step C st = Some (Inr st')"
  then show "length (trainers st') = length (trainers st)"
    by (rule generational_step_trainers_length)
next
  show "length (trainers (snd (dump_populations C s_subset p_subset t_subset False st)))
     = length (trainers st)"
    by (simp add: trainers_dump_populations)
next
  show "length (trainers (snd (dump_populations C s_subset p_subset t_subset True st)))
     = card {i. i < length (trainers st) \<and>
                int i \<notin> set (subset_or_all t_subset (length (trainers st)))}"
    by (simp add: trainers_dump_populations length_rejected)
next
  assume "load_populations C (slist, plist, tlist) replace st = Inr st'"
  from trainers_load_populations [OF this]
  show "length (trainers st') = (if replace then 0 else length (trainers st)) + length tlist"
    by simp
qed

lemma ex_dump_removal:
  "snd (dump_populations ex_collab (Some []) (Some []) (Some [0, 2]) True (ex_state 0 0 200 [2, 3]))
     = (ex_state 0 0 200 [2, 3])\<lparr>trainers := [ex_indv 3, ex_indv 5],
                                    trainers_true_fitness := [Num 3, Num 5]\<rparr>"
  by (simp add: dump_populations_def Island_dump_population_def subset_or_all_def selected_def
      rejected_def enumerate_eq_zip upt_rec ex_state_def)

text \<open>
  Claim C8 as stated fails: dumping with removal of the trainers 0 and 2 leaves two of the
  four trainers.
\<close>

theorem trainer_set_length_counterexample:
  "length (trainers (ex_state 0 0 200 [2, 3])) = 4 \<and>
   length (trainers (snd (dump_populations ex_collab (Some []) (Some []) (Some [0, 2]) True
                            (ex_state 0 0 200 [2, 3])))) = 2"
  by (simp add: ex_dump_removal) (simp add: ex_state_def)

lemma ex_generational_step:
  "generational_step ex_collab (ex_state 0 0 200 [2, 3]) =
     Some (Inr ((ex_state 1 0 202 [2, 3])\<lparr>predictor_island := ex_pisl 3 7\<rparr>))"
  using ex_loop_run ex_ratio_reached ex_finish_step
  by (subst generational_step_loop_run) blast

lemma ex_load_append:
  "load_populations ex_collab ([3], [2], [(5, Num 5)]) False (ex_state 0 0 200 [2, 3]) =
     Inr ((ex_state 0 0 200 [2, 3])
       \<lparr>solution_island :=
          \<lparr>pop = [ex_indv 3, ex_indv 5, \<lparr>genome = 3, fit_set = False\<rparr>], age = 0,
            fitness_evals = 200, hidden = 0\<rparr>,
        predictor_island :=
          \<lparr>pop = [ex_indv 2, ex_indv 3, \<lparr>genome = 2, fit_set = False\<rparr>], age = 0,
            fitness_evals = 1, hidden = 0\<rparr>,
        trainers := [ex_indv 3, ex_indv 3, ex_indv 5, ex_indv 5, \<lparr>genome = 5, fit_set = False\<rparr>],
        trainers_true_fitness := [Num 3, Num 3, Num 5, Num 5, Num 5],
        best_predictor := ex_indv 2\<rparr>)"
  by (simp add: load_populations_def Island_load_population_def copy_indv_def ex_defs)

theorem trainer_set_length_witness:
  "length (trainers ((ex_state 0 0 200 [2, 3])
        \<lparr>trainers := [ex_indv 3, ex_indv 5, ex_indv 5, ex_indv 3],
         trainers_true_fitness := [Num 3, Num 5, Num 5, Num 3],
         best_predictor := ex_indv 2\<rparr>)) = nat 4 \<and>
   length (trainers ((ex_state 0 0 200 [2, 3])
        \<lparr>trainers := [ex_indv 5, ex_indv 3, ex_indv 5, ex_indv 5]\<rparr>))
     = length (trainers (ex_state 0 0 200 [2, 3])) \<and>
   length (trainers ((ex_state 1 0 202 [2, 3])\<lparr>predictor_island := ex_pisl 3 7\<rparr>))
     = length (trainers (ex_state 0 0 200 [2, 3])) \<and>
   load_populations ex_collab ([3], [2], [(5, Num 5)]) False (ex_state 0 0 200 [2, 3]) =
     Inr ((ex_state 0 0 200 [2, 3])
       \<lparr>solution_island :=
          \<lparr>pop = [ex_indv 3, ex_indv 5, \<lparr>genome = 3, fit_set = False\<rparr>], age = 0,
            fitness_evals = 200, hidden = 0\<rparr>,
        predictor_island :=
          \<lparr>pop = [ex_indv 2, ex_indv 3, \<lparr>genome = 2, fit_set = False\<rparr>], age = 0,
            fitness_evals = 1, hidden = 0\<rparr>,
        trainers := [ex_indv 3, ex_indv 3, ex_indv 5, ex_indv 5, \<lparr>genome = 5, fit_set = False\<rparr>],
        trainers_true_fitness := [Num 3, Num 3, Num 5, Num 5, Num 5],
        best_predictor := ex_indv 2\<rparr>) \<and>
   length [ex_indv 3, ex_indv 3, ex_indv 5, ex_indv 5, \<lparr>genome = 5, fit_set = False\<rparr>]
     = length (trainers (ex_state 0 0 200 [2, 3])) + length [(5 :: nat, Num 5)]"
proof -
  let ?st = "ex_state 0 0 200 [2, 3]"
  let ?con = "?st\<lparr>trainers := [ex_indv 3, ex_indv 5, ex_indv 5, ex_indv 3],
         trainers_true_fitness := [Num 3, Num 5, Num 5, Num 3],
         best_predictor := ex_indv 2\<rparr>"
  let ?added = "?st\<lparr>trainers := [ex_indv 5, ex_indv 3, ex_indv 5, ex_indv 5]\<rparr>"
  let ?res = "(ex_state 1 0 202 [2, 3])\<lparr>predictor_island := ex_pisl 3 7\<rparr>"
  let ?loaded = "?st
       \<lparr>solution_island :=
          \<lparr>pop = [ex_indv 3, ex_indv 5, \<lparr>genome = 3, fit_set = False\<rparr>], age = 0,
            fitness_evals = 200, hidden = 0\<rparr>,
        predictor_island :=
          \<lparr>pop = [ex_indv 2, ex_indv 3, \<lparr>genome = 2, fit_set = False\<rparr>], age = 0,
            fitness_evals = 1, hidden = 0\<rparr>,
        trainers := [ex_indv 3, ex_indv 3, ex_indv 5, ex_indv 5, \<lparr>genome = 5, fit_set = False\<rparr>],
        trainers_true_fitness := [Num 3, Num 3, Num 5, Num 5, Num 5],
        best_predictor := ex_indv 2\<rparr>"
  have a: "length (trainers ?con) = nat 4"
    using trainer_set_length [where C = ex_collab and sisl = "solution_island ?st"
        and pisl = "ex_pisl 0 1" and pr = "1 / 10" and puf = 50 and tps = 4 and tuf = 50
        and draws = "[0, 1, 1, 0]" and ?st0.0 = ?con] ex_construct
    by blast
  have b: "length (trainers ?added) = length (trainers ?st)"
    using trainer_set_length [where C = ex_collab and st = ?st and st' = ?added]
      ex_add_new_trainer [of 0 0 200]
    by simp
  have c: "length (trainers ?res) = length (trainers ?st)"
    using trainer_set_length [where C = ex_collab and st = ?st and st' = ?res]
      ex_generational_step
    by blast
  have d: "length (trainers ?loaded) =
             (if False then 0 else length (trainers ?st)) + length [(5 :: nat, Num 5)]"
    using trainer_set_length [where C = ex_collab and st = ?st and st' = ?loaded
        and slist = "[3]" and plist = "[2]" and tlist = "[(5, Num 5)]" and replace = False]
      ex_load_append
    by blast
  from a b c d ex_load_append show ?thesis by simp
qed

subsection \<open>Snapshot round trip\<close>



lemma predictor_fitness_cong:
  "trainers st = trainers st' \<Longrightarrow> trainers_true_fitness st = trainers_true_fitness st' \<Longrightarrow>
   predictor_fitness C st = predictor_fitness C st'"
  by (rule ext) (simp add: predictor_fitness_def)

lemma load_populations_result:
  assumes "load_populations C (slist, plist, tlist) replace st = Inr st'"
  shows "solution_island st' = Island_load_population (sol_load C) slist replace (solution_island st)"
    and "predictor_island st' = Island_load_population (pred_load C) plist replace (predictor_island st)"
    and "trainers st' = (if replace then [] else trainers st) @ map (\<lambda>(d, t_fit). sol_load C d) tlist"
    and "trainers_true_fitness st' = (if replace then [] else trainers_true_fitness st) @ map snd tlist"
    and "\<exists>b. pred_best C (predictor_fitness C st') (predictor_island st') = Inr b \<and>
             best_predictor st' = copy_indv b"
proof -
  let ?st1 = "st\<lparr>solution_island :=
                       Island_load_population (sol_load C) slist replace (solution_island st),
                     predictor_island :=
                       Island_load_population (pred_load C) plist replace (predictor_island st),
                     trainers :=
                       (if replace then [] else trainers st) @ map (\<lambda>(d, t_fit). sol_load C d) tlist,
                     trainers_true_fitness :=
                       (if replace then [] else trainers_true_fitness st) @ map snd tlist\<rparr>"
  from assms obtain b where b: "pred_best C (predictor_fitness C ?st1) (predictor_island ?st1) = Inr b"
    and st': "st' = ?st1\<lparr>best_predictor := copy_indv b\<rparr>"
    by (auto simp: load_populations_def Let_def split: sum.splits)
  from st' show "solution_island st' = Island_load_population (sol_load C) slist replace (solution_island st)"
    and "predictor_island st' = Island_load_population (pred_load C) plist replace (predictor_island st)"
    and "trainers st' = (if replace then [] else trainers st) @ map (\<lambda>(d, t_fit). sol_load C d) tlist"
    and "trainers_true_fitness st' = (if replace then [] else trainers_true_fitness st) @ map snd tlist"
    by simp_all
  have "predictor_fitness C ?st1 = predictor_fitness C st'"
    using st' by (intro predictor_fitness_cong) simp_all
  with b st' show "\<exists>b. pred_best C (predictor_fitness C st') (predictor_island st') = Inr b \<and>
             best_predictor st' = copy_indv b"
    by simp
qed






subsection \<open>Flags after a change of the cache or of the trainers\<close>

lemma clear_fit_set_flags: "\<forall>indv \<in> set (pop (clear_fit_set isle)). \<not> fit_set indv"
  by (simp add: clear_fit_set_def)

lemma update_best_predictor_clears:
  assumes "update_best_predictor C st = Inr st'"
  shows "\<forall>indv \<in> set (pop (solution_island st')). \<not> fit_set indv"
  using update_best_predictor_frame [OF assms] clear_fit_set_flags [of "solution_island st"]
  by auto

lemma update_trainers_clears:
  assumes "update_trainers C st = Inr st'"
  shows "\<forall>indv \<in> set (pop (predictor_island st')). \<not> fit_set indv"
  using assms
  by (auto simp: update_trainers_def clear_fit_set_def split: sum.splits)

lemma ex_load_nothing:
  "load_populations ex_collab ([], [], []) False (ex_state 0 0 200 [2, 3]) =
     Inr ((ex_state 0 0 200 [2, 3])\<lparr>best_predictor := ex_indv 2\<rparr>)"
  by (simp add: load_populations_def Island_load_population_def copy_indv_def ex_defs)

text \<open>
  Claim C2 fails on the code. Appending an empty snapshot with \<^verbatim>\<open>load_populations\<close>
  replaces the Best-Predictor Cache (predictor 3 before, predictor 2 after) and leaves the
  flag of the first solution individual set; the scheduled refresh of
  \<^verbatim>\<open>generational_step\<close>, on the same state, clears every solution flag.
\<close>

theorem load_populations_keeps_solution_flags:
  "load_populations ex_collab ([], [], []) False (ex_state 0 0 200 [2, 3]) =
     Inr ((ex_state 0 0 200 [2, 3])\<lparr>best_predictor := ex_indv 2\<rparr>) \<and>
   best_predictor (ex_state 0 0 200 [2, 3]) = ex_indv 3 \<and>
   ex_indv 3 \<noteq> ex_indv 2 \<and>
   fit_set (pop (solution_island ((ex_state 0 0 200 [2, 3])\<lparr>best_predictor := ex_indv 2\<rparr>)) ! 0) \<and>
   update_best_predictor ex_collab (ex_state 0 0 200 [2, 3]) =
     Inr ((ex_state 0 0 200 [2, 3])
            \<lparr>best_predictor := ex_indv 2,
             solution_island :=
               \<lparr>pop = [\<lparr>genome = 3, fit_set = False\<rparr>, \<lparr>genome = 5, fit_set = False\<rparr>],
                 age = 0, fitness_evals = 200, hidden = 0\<rparr>\<rparr>)"
  using ex_load_nothing
  by (simp add: update_best_predictor_def clear_fit_set_def copy_indv_def ex_defs)

lemma ex_load_trainer:
  "load_populations ex_collab ([], [], [(7, Num 7)]) False (ex_state 0 0 200 [2, 3]) =
     Inr ((ex_state 0 0 200 [2, 3])
            \<lparr>trainers := [ex_indv 3, ex_indv 3, ex_indv 5, ex_indv 5,
                           \<lparr>genome = 7, fit_set = False\<rparr>],
             trainers_true_fitness := [Num 3, Num 3, Num 5, Num 5, Num 7],
             best_predictor := ex_indv 2\<rparr>)"
  by (simp add: load_populations_def Island_load_population_def copy_indv_def ex_defs)

text \<open>
  Claim C3 fails on the code. A direct \<^verbatim>\<open>add_new_trainer\<close> call, \<^verbatim>\<open>dump_populations\<close>
  with removal of two trainers, and \<^verbatim>\<open>load_populations\<close> appending a trainer each change
  the Trainer Set and leave the predictor population, with its flags set, as it was; the
  update inside the scheduling loop, on the same state, clears every predictor flag.
\<close>

theorem trainer_change_keeps_predictor_flags:
  "add_new_trainer ex_collab (ex_state 0 0 200 [2, 3]) =
     Inr ((ex_state 0 0 200 [2, 3])\<lparr>trainers := [ex_indv 5, ex_indv 3, ex_indv 5, ex_indv 5]\<rparr>) \<and>
   snd (dump_populations ex_collab (Some []) (Some []) (Some [0, 2]) True (ex_state 0 0 200 [2, 3]))
     = (ex_state 0 0 200 [2, 3])\<lparr>trainers := [ex_indv 3, ex_indv 5],
                                    trainers_true_fitness := [Num 3, Num 5]\<rparr> \<and>
   load_populations ex_collab ([], [], [(7, Num 7)]) False (ex_state 0 0 200 [2, 3]) =
     Inr ((ex_state 0 0 200 [2, 3])
            \<lparr>trainers := [ex_indv 3, ex_indv 3, ex_indv 5, ex_indv 5,
                           \<lparr>genome = 7, fit_set = False\<rparr>],
             trainers_true_fitness := [Num 3, Num 3, Num 5, Num 5, Num 7],
             best_predictor := ex_indv 2\<rparr>) \<and>
   pop (predictor_island (ex_state 0 0 200 [2, 3])) =
     [\<lparr>genome = 2, fit_set = True\<rparr>, \<lparr>genome = 3, fit_set = True\<rparr>] \<and>
   update_trainers ex_collab (ex_state 0 0 200 [2, 3]) =
     Inr ((ex_state 0 0 200 [2, 3])
            \<lparr>trainers := [ex_indv 5, ex_indv 3, ex_indv 5, ex_indv 5],
             predictor_island :=
               \<lparr>pop = [\<lparr>genome = 2, fit_set = False\<rparr>, \<lparr>genome = 3, fit_set = False\<rparr>],
                 age = 0, fitness_evals = 1, hidden = 0\<rparr>\<rparr>)"
  using ex_add_new_trainer [of 0 0 200] ex_dump_removal ex_load_trainer
  by (simp add: update_trainers_def clear_fit_set_def) (simp add: ex_state_def ex_indv_def)

subsection \<open>Scores that are not a number\<close>























subsection \<open>Invariants of the trainer lists\<close>

text \<open>
  The constructor and every operation keep the two trainer lists of equal length, which
  is what the statements above on \<^verbatim>\<open>predictor_fitness\<close> and on the round trip assume.
\<close>

lemma add_new_trainer_true_fitness:
  assumes "add_new_trainer C st = Inr st'"
  shows "trainers_true_fitness st' = trainers_true_fitness st"
  using add_new_trainer_frame [OF assms] by auto

lemma aligned_construct:
  assumes "construct C sisl pisl pr puf tps tuf draws = Some (Inr st0)"
  shows "length (trainers_true_fitness st0) = length (trainers st0)"
  using construct_trainers [OF assms] by simp

lemma aligned_add_new_trainer:
  assumes "add_new_trainer C st = Inr st'"
    and "length (trainers_true_fitness st) = length (trainers st)"
  shows "length (trainers_true_fitness st') = length (trainers st')"
  using add_new_trainer_frame [OF assms(1)] assms(2) by auto

lemma aligned_generational_step:
  assumes "generational_step C st = Some (Inr st')"
    and "length (trainers_true_fitness st) = length (trainers st)"
  shows "length (trainers_true_fitness st') = length (trainers st')"
proof -
  from assms(1) obtain k st1 where run: "loop_run C k st st1"
    and fin: "finish_step C st1 = Inr st'"
    by (auto simp: generational_step_loop_run)
  from loop_run_frame [OF run] assms(2)
  have "length (trainers_true_fitness st1) = length (trainers st1)" by auto
  with finish_step_unchanged [OF fin] show ?thesis by simp
qed

lemma aligned_dump_populations:
  assumes "length (trainers_true_fitness st) = length (trainers st)"
  shows "length (trainers_true_fitness
                   (snd (dump_populations C s_subset p_subset t_subset with_removal st))) =
         length (trainers (snd (dump_populations C s_subset p_subset t_subset with_removal st)))"
  using assms
  by (simp add: dump_populations_def Island_dump_population_def Let_def length_rejected
      split: prod.splits)

lemma aligned_load_populations:
  assumes "load_populations C (slist, plist, tlist) replace st = Inr st'"
    and "length (trainers_true_fitness st) = length (trainers st)"
  shows "length (trainers_true_fitness st') = length (trainers st')"
  using load_populations_result(3,4) [OF assms(1)] assms(2) by simp

text \<open>
  The rejection sampling returns as soon as the draws hold enough legal candidates: if
  every draw is the index of a candidate that the metric and all predictors can score,
  \<open>n\<close> draws give \<open>n\<close> trainers.
\<close>

lemma init_trainers_returns:
  assumes "\<forall>ind \<in> set draws. ind < length spop \<and>
             \<not> isnan (solution_fitness_true C (spop ! ind)) \<and>
             (\<forall>pred \<in> set ppop. \<not> isnan (fit_func C (genome pred) (genome (spop ! ind))))"
    and "n \<le> length draws"
  shows "\<exists>ts' fs'. init_trainers C spop ppop n draws ts fs = Some (Inr (ts', fs'))"
  using assms
proof (induction n arbitrary: draws ts fs)
  case 0
  then show ?case by simp
next
  case (Suc n)
  from Suc.prems(2) obtain ind rest where d: "draws = ind # rest"
    by (cases draws) auto
  with Suc.prems(1) have
    f: "find_legal_trainer C spop ppop draws =
          Some (Inr (ind, solution_fitness_true C (spop ! ind), rest))"
    by (simp add: Let_def)
  from Suc.prems d have "\<forall>ind \<in> set rest. ind < length spop \<and>
             \<not> isnan (solution_fitness_true C (spop ! ind)) \<and>
             (\<forall>pred \<in> set ppop. \<not> isnan (fit_func C (genome pred) (genome (spop ! ind))))"
    and "n \<le> length rest" by simp_all
  from Suc.IH [OF this] f show ?case by simp
qed

end
